theory Spec2Isabelle
  imports Complex_Main "HOL-Library.Multiset"
begin

section \<open>Python values used by main2.py\<close>

text \<open>
  The exceptions that the modelled code can raise.  A function of the source that can
  raise returns \<open>py_error + 'a\<close>, with \<open>Inl\<close> for the exception.
\<close>

datatype py_error =
    IndexError | KeyError | TypeError | AttributeError | ZeroDivisionError
  | ValueError | HTTPError | RequestException | JSONError

subsection \<open>Numbers\<close>

text \<open>
  A JSON number arrives as a Python \<open>int\<close> or as a Python \<open>float\<close> (binary64).
  A finite float is represented by the rational number it denotes; \<open>PyFloat 0\<close> is
  \<open>0.0\<close> and \<open>PyNegZero\<close> is \<open>-0.0\<close>.  Every float operation computes the exact
  rational result and rounds it to the nearest binary64 value, ties to even (\<open>fl\<close>).
  The exponent range is bounded below (subnormal numbers) and taken unbounded above:
  results of magnitude \<open>2 ^ 1024\<close> and more, where Python yields \<open>inf\<close> or raises
  \<open>OverflowError\<close>, are outside the range of the model.
\<close>

datatype pynum = PyInt int | PyFloat rat | PyNegZero

text \<open>\<open>int.bit_length()\<close> of a non-negative int.\<close>

function bit_length :: "int \<Rightarrow> int" where
  "bit_length n = (if n \<le> 0 then 0 else 1 + bit_length (n div 2))"
  by pat_completeness auto
termination
  by (relation "measure nat") auto

declare bit_length.simps [simp del]

definition pow2 :: "int \<Rightarrow> rat" where
  "pow2 e = (if 0 \<le> e then of_int (2 ^ nat e) else 1 / of_int (2 ^ nat (- e)))"

definition round_half_even :: "rat \<Rightarrow> int" where
  "round_half_even y =
     (let f = \<lfloor>y\<rfloor>; r = y - of_int f
      in if r < 1 / 2 then f else if 1 / 2 < r then f + 1
         else if even f then f else f + 1)"

text \<open>\<open>ilog2 x\<close> is the integer \<open>e\<close> with \<open>2 ^ e \<le> x < 2 ^ (e + 1)\<close>, for \<open>0 < x\<close>.\<close>

definition ilog2 :: "rat \<Rightarrow> int" where
  "ilog2 x = (if 1 \<le> x then bit_length \<lfloor>x\<rfloor> - 1
              else - bit_length (\<lceil>1 / x\<rceil> - 1))"

text \<open>Rounding to binary64: 53 significant bits, smallest quantum \<open>2 ^ - 1074\<close>.\<close>

definition fl :: "rat \<Rightarrow> rat" where
  "fl x = (if x = 0 then 0
           else let q = pow2 (max (ilog2 \<bar>x\<bar> - 52) (- 1074))
                in sgn x * of_int (round_half_even (\<bar>x\<bar> / q)) * q)"

fun rat_of :: "pynum \<Rightarrow> rat" where
  "rat_of (PyInt i) = of_int i"
| "rat_of (PyFloat r) = r"
| "rat_of PyNegZero = 0"

text \<open>\<open>float(x)\<close>: an \<open>int\<close> is converted with rounding.\<close>

fun to_float :: "pynum \<Rightarrow> rat" where
  "to_float (PyInt i) = fl (of_int i)"
| "to_float (PyFloat r) = r"
| "to_float PyNegZero = 0"

fun sign_bit :: "pynum \<Rightarrow> bool" where
  "sign_bit (PyInt i) = (i < 0)"
| "sign_bit (PyFloat r) = (r < 0)"
| "sign_bit PyNegZero = True"

definition mk_float :: "bool \<Rightarrow> rat \<Rightarrow> pynum" where
  "mk_float neg r = (if r = 0 \<and> neg then PyNegZero else PyFloat r)"

text \<open>\<open>a + b\<close>.  A float sum that is zero is \<open>-0.0\<close> only when both operands are.\<close>

fun py_add :: "pynum \<Rightarrow> pynum \<Rightarrow> pynum" where
  "py_add (PyInt i) (PyInt j) = PyInt (i + j)"
| "py_add PyNegZero PyNegZero = PyNegZero"
| "py_add a b = PyFloat (fl (to_float a + to_float b))"

text \<open>\<open>a - b\<close>.  A float difference that is zero is \<open>-0.0\<close> only for \<open>-0.0 - 0.0\<close>.\<close>

fun py_sub :: "pynum \<Rightarrow> pynum \<Rightarrow> pynum" where
  "py_sub (PyInt i) (PyInt j) = PyInt (i - j)"
| "py_sub PyNegZero (PyInt j) = (if j = 0 then PyNegZero else PyFloat (fl (- to_float (PyInt j))))"
| "py_sub PyNegZero (PyFloat r) = (if r = 0 then PyNegZero else PyFloat (fl (- r)))"
| "py_sub a b = PyFloat (fl (to_float a - to_float b))"

text \<open>\<open>a * b\<close>: the sign of a zero product is the exclusive or of the signs.\<close>

fun py_mul :: "pynum \<Rightarrow> pynum \<Rightarrow> pynum" where
  "py_mul (PyInt i) (PyInt j) = PyInt (i * j)"
| "py_mul a b = mk_float (sign_bit a \<noteq> sign_bit b) (fl (to_float a * to_float b))"

text \<open>
  \<open>a / b\<close> (true division).  Two ints are divided exactly and the quotient is rounded
  once; otherwise both operands are converted to float first.
\<close>

fun py_truediv :: "pynum \<Rightarrow> pynum \<Rightarrow> py_error + pynum" where
  "py_truediv a b =
     (if rat_of b = 0 then Inl ZeroDivisionError
      else case (a, b) of
        (PyInt i, PyInt j) \<Rightarrow>
          Inr (mk_float (sign_bit a \<noteq> sign_bit b) (fl (of_int i / of_int j)))
      | _ \<Rightarrow> Inr (mk_float (sign_bit a \<noteq> sign_bit b) (fl (to_float a / to_float b))))"

text \<open>\<open>x == 0\<close> and \<open>x > 0\<close> compare the exact values.\<close>

definition py_eq0 :: "pynum \<Rightarrow> bool" where
  "py_eq0 x = (rat_of x = 0)"

definition py_gt0 :: "pynum \<Rightarrow> bool" where
  "py_gt0 x = (0 < rat_of x)"

subsection \<open>Formatting with \<open>.2f\<close> and \<open>+.2f\<close>\<close>

definition digit :: "int \<Rightarrow> char" where
  "digit d = ''0123456789'' ! nat d"

text \<open>The decimal digits of a non-negative int.\<close>

function show_nat :: "int \<Rightarrow> string" where
  "show_nat n = (if n < 10 then [digit n] else show_nat (n div 10) @ [digit (n mod 10)])"
  by pat_completeness auto
termination
  by (relation "measure nat") auto

declare show_nat.simps [simp del]

definition two_digits :: "int \<Rightarrow> string" where
  "two_digits k = [digit (k div 10 mod 10), digit (k mod 10)]"

text \<open>
  \<open>format(x, '.2f')\<close> (\<open>show_plus = False\<close>) and \<open>format(x, '+.2f')\<close> (\<open>show_plus = True\<close>): the
  value is converted to float and its exact value is rounded to two decimals, ties to
  even; the sign of a negative number, also of \<open>-0.0\<close>, is kept.
\<close>

definition format_2f :: "bool \<Rightarrow> pynum \<Rightarrow> string" where
  "format_2f show_plus x =
     (let n = round_half_even (\<bar>to_float x\<bar> * 100)
      in (if sign_bit x then ''-'' else if show_plus then ''+'' else '''')
         @ show_nat (n div 100) @ ''.'' @ two_digits (n mod 100))"

subsection \<open>Strings\<close>

text \<open>\<open>str.lower()\<close> and \<open>str.upper()\<close>, on ASCII text.\<close>

definition lower_char :: "char \<Rightarrow> char" where
  "lower_char c = (let n = (of_char c :: int) in if 65 \<le> n \<and> n \<le> 90 then char_of (n + 32) else c)"

definition upper_char :: "char \<Rightarrow> char" where
  "upper_char c = (let n = (of_char c :: int) in if 97 \<le> n \<and> n \<le> 122 then char_of (n - 32) else c)"

definition lower :: "string \<Rightarrow> string" where
  "lower s = map lower_char s"

definition upper :: "string \<Rightarrow> string" where
  "upper s = map upper_char s"

text \<open>\<open>str.capitalize()\<close>: first character upper case, the rest lower case.\<close>

fun capitalize :: "string \<Rightarrow> string" where
  "capitalize [] = []"
| "capitalize (c # cs) = upper_char c # lower cs"

fun starts_with :: "string \<Rightarrow> string \<Rightarrow> bool" where
  "starts_with [] s = True"
| "starts_with (c # cs) [] = False"
| "starts_with (c # cs) (d # ds) = (c = d \<and> starts_with cs ds)"

text \<open>\<open>str_contains sub s\<close> is Python's \<open>sub in s\<close>.\<close>

fun str_contains :: "string \<Rightarrow> string \<Rightarrow> bool" where
  "str_contains sub [] = (sub = [])"
| "str_contains sub (d # ds) = (starts_with sub (d # ds) \<or> str_contains sub ds)"

section \<open>Rows of the cost query and their categories\<close>

text \<open>
  A row of \<open>properties.rows\<close> is a JSON array; its cells are numbers, strings or
  \<open>null\<close>.
\<close>

datatype cell = JNum pynum | JStr string | JNull

type_synonym row = "cell list"

datatype category = Databricks | Virtual_Machine | Storage | Others

fun category_name :: "category \<Rightarrow> string" where
  "category_name Databricks = ''Databricks''"
| "category_name Virtual_Machine = ''Virtual Machine''"
| "category_name Storage = ''Storage''"
| "category_name Others = ''Others''"

text \<open>The dictionary \<open>costs\<close> of \<open>process_cost_data\<close>: it always has exactly the four keys.\<close>

type_synonym costs = "category \<Rightarrow> pynum"

definition initial_costs :: costs where
  "initial_costs = (\<lambda>_. PyInt 0)"

text \<open>The \<open>if\<close>/\<open>elif\<close> chain of \<open>process_cost_data\<close> (main2.py, lines 167 to 174).\<close>

definition categorize :: "string \<Rightarrow> category" where
  "categorize resource_type =
     (if str_contains ''databricks/workspaces'' resource_type
         \<or> str_contains ''databricks/workspace'' resource_type then Databricks
      else if str_contains ''compute/virtualmachines'' resource_type
         \<or> str_contains ''microsoft.compute/virtualmachines'' resource_type then Virtual_Machine
      else if str_contains ''storage/storageaccounts'' resource_type
         \<or> str_contains ''microsoft.storage/storageaccounts'' resource_type then Storage
      else Others)"

text \<open>
  \<open>row[2].lower() if len(row) > 2 else ''\<close>: \<open>.lower()\<close> exists on strings only.
\<close>

definition resource_type_of :: "row \<Rightarrow> py_error + string" where
  "resource_type_of row =
     (if 2 < length row
      then (case row ! 2 of JStr s \<Rightarrow> Inr (lower s) | _ \<Rightarrow> Inl AttributeError)
      else Inr '''')"

text \<open>
  One iteration of the loop of \<open>process_cost_data\<close>: \<open>cost = row[0]\<close> raises
  \<open>IndexError\<close> on an empty row, and \<open>costs[...] += cost\<close> raises \<open>TypeError\<close> when the
  cell is not a number.
\<close>

definition process_row :: "costs \<Rightarrow> row \<Rightarrow> py_error + costs" where
  "process_row costs row =
     (case row of
        [] \<Rightarrow> Inl IndexError
      | cost # _ \<Rightarrow>
          (case resource_type_of row of
             Inl e \<Rightarrow> Inl e
           | Inr resource_type \<Rightarrow>
               (case cost of
                  JNum c \<Rightarrow>
                    Inr (costs (categorize resource_type :=
                                  py_add (costs (categorize resource_type)) c))
                | _ \<Rightarrow> Inl TypeError)))"

fun process_rows :: "costs \<Rightarrow> row list \<Rightarrow> py_error + costs" where
  "process_rows costs [] = Inr costs"
| "process_rows costs (row # rows) =
     (case process_row costs row of
        Inl e \<Rightarrow> Inl e
      | Inr costs' \<Rightarrow> process_rows costs' rows)"

definition process_cost_data :: "row list \<Rightarrow> py_error + costs" where
  "process_cost_data raw_data = process_rows initial_costs raw_data"

section \<open>Dates\<close>

text \<open>
  A date is its proleptic Gregorian ordinal (\<open>date.toordinal()\<close>; day 1 is
  0001-01-01).  \<open>datetime.now()\<close> is read as one fixed date \<open>now\<close> during a run, and
  \<open>datetime.now() - timedelta(days=k)\<close> is \<open>now - k\<close>.  Years have four digits.
\<close>

definition ymd_of_ordinal :: "int \<Rightarrow> int \<times> int \<times> int" where
  "ymd_of_ordinal n =
     (let z = n + 305;
          era = z div 146097;
          doe = z mod 146097;
          yoe = (doe - doe div 1460 + doe div 36524 - doe div 146096) div 365;
          doy = doe - (365 * yoe + yoe div 4 - yoe div 100);
          mp = (5 * doy + 2) div 153;
          d = doy - (153 * mp + 2) div 5 + 1;
          m = (if mp < 10 then mp + 3 else mp - 9);
          y = yoe + era * 400 + (if m \<le> 2 then 1 else 0)
      in (y, m, d))"

text \<open>\<open>int(date.strftime('%Y%m%d'))\<close>\<close>

definition date_key_of :: "int \<Rightarrow> int" where
  "date_key_of n = (case ymd_of_ordinal n of (y, m, d) \<Rightarrow> y * 10000 + m * 100 + d)"

text \<open>\<open>date.strftime('%m/%d')\<close>\<close>

definition strftime_md :: "int \<Rightarrow> string" where
  "strftime_md n =
     (case ymd_of_ordinal n of (y, m, d) \<Rightarrow> two_digits m @ ''/'' @ two_digits d)"

text \<open>\<open>date.strftime('%Y-%m-%d')\<close>\<close>

definition strftime_Y_m_d :: "int \<Rightarrow> string" where
  "strftime_Y_m_d n =
     (case ymd_of_ordinal n of (y, m, d) \<Rightarrow>
        show_nat y @ ''-'' @ two_digits m @ ''-'' @ two_digits d)"

text \<open>\<open>date.strftime('%A')\<close>: ordinal 1 is a Monday.\<close>

definition strftime_A :: "int \<Rightarrow> string" where
  "strftime_A n =
     [''Monday'', ''Tuesday'', ''Wednesday'', ''Thursday'', ''Friday'', ''Saturday'', ''Sunday'']
       ! nat ((n + 6) mod 7)"

text \<open>\<open>str(n)\<close> for an int.\<close>

definition show_int :: "int \<Rightarrow> string" where
  "show_int i = (if i < 0 then ''-'' @ show_nat (- i) else show_nat i)"

section \<open>The cost query and its responses\<close>

text \<open>
  A column description of \<open>properties.columns\<close>: its \<open>name\<close>, or \<open>None\<close> when the
  object has no key \<open>name\<close> (then \<open>col['name']\<close> raises \<open>KeyError\<close>).
\<close>

type_synonym column = "string option"

text \<open>
  The object \<open>properties\<close> of a response body: the keys \<open>rows\<close> and \<open>columns\<close>, when
  present, and whether the object has any other key.
\<close>

record properties =
  prop_rows :: "row list option"
  prop_columns :: "column list option"
  prop_other_keys :: bool

text \<open>Truth value of the dictionary: false exactly when it has no key.\<close>

definition truthy :: "properties \<Rightarrow> bool" where
  "truthy p = (prop_rows p \<noteq> None \<or> prop_columns p \<noteq> None \<or> prop_other_keys p)"

text \<open>
  The header \<open>Retry-After\<close> of a response: absent, a text that \<open>int()\<close> accepts, or a
  text on which \<open>int()\<close> raises \<open>ValueError\<close>.
\<close>

datatype retry_after_header = Absent | Seconds int | Malformed

text \<open>
  A response: \<open>json_properties\<close> is \<open>response.json()['properties']\<close>, or \<open>None\<close> when
  that expression raises (no JSON body, or no key \<open>properties\<close>).
\<close>

record response =
  status_code :: int
  retry_after :: retry_after_header
  json_properties :: "properties option"

text \<open>\<open>requests.post\<close> either raises (timeout, connection error) or returns a response.\<close>

datatype http_result = Raised | Responded response

text \<open>The request that is posted: the subscription, the time period and the grouping.\<close>

record request =
  req_subscription :: string
  req_from :: string
  req_to :: string
  req_grouping :: "string list"

text \<open>What a run prints: \<open>PrintError prefix e\<close> is \<open>print(f"prefix{str(e)}")\<close>.\<close>

datatype console_item =
    Print string
  | PrintError string py_error
  | Tabulate "string list" "string list list"

text \<open>
  The content of the Word document, in the order in which it is added: headings (with
  their level), paragraphs (the texts of their runs) and tables (header cells, then the
  data rows).
\<close>

datatype doc_item =
    Heading nat string
  | Paragraph "string list"
  | DocTable "string list" "string list list"

text \<open>
  The effects of a run: the requests posted, the arguments of \<open>time.sleep\<close>, the
  console, and the documents saved (file name and content).  The remote side is a function \<open>server\<close> that gives the outcome of the
  \<open>k\<close>-th request of the run (counting from 0).
\<close>

record world =
  sent :: "request list"
  slept :: "int list"
  console :: "console_item list"
  saved :: "(string \<times> doc_item list) list"

definition post :: "(nat \<Rightarrow> http_result) \<Rightarrow> request \<Rightarrow> world \<Rightarrow> http_result \<times> world" where
  "post server req w = (server (length (sent w)), w\<lparr>sent := sent w @ [req]\<rparr>)"

definition print :: "console_item \<Rightarrow> world \<Rightarrow> world" where
  "print item w = w\<lparr>console := console w @ [item]\<rparr>"

definition sleep :: "int \<Rightarrow> world \<Rightarrow> world" where
  "sleep secs w = w\<lparr>slept := slept w @ [secs]\<rparr>"

text \<open>\<open>response.raise_for_status()\<close> raises for the status codes 400 to 599.\<close>

definition is_error_status :: "int \<Rightarrow> bool" where
  "is_error_status code = (400 \<le> code \<and> code < 600)"

definition range_request :: "string \<Rightarrow> int \<Rightarrow> int \<Rightarrow> request" where
  "range_request subscription_id start_date end_date =
     \<lparr>req_subscription = subscription_id,
      req_from = strftime_Y_m_d start_date @ ''T00:00:00Z'',
      req_to = strftime_Y_m_d end_date @ ''T23:59:59Z'',
      req_grouping = [''ResourceType'', ''ChargeType'']\<rparr>"


text \<open>
  \<open>get_cost_data_range\<close> (main2.py, lines 100 to 151).  On status 429 it calls itself
  again, with no counter: the function need not return, so its result is an
  \<open>option\<close>, and \<open>None\<close> stands for a run that never returns.  The returned value is
  \<open>None\<close> (Python's) after an exception, and the \<open>properties\<close> otherwise.  The recursion
  limit of the interpreter is not modelled.
\<close>

partial_function (option) get_cost_data_range ::
  "(nat \<Rightarrow> http_result) \<Rightarrow> string \<Rightarrow> int \<Rightarrow> int \<Rightarrow> world
     \<Rightarrow> (properties option \<times> world) option" where
  "get_cost_data_range server subscription_id start_date end_date w =
     (case post server (range_request subscription_id start_date end_date) w of
        (Raised, w1) \<Rightarrow>
          Some (None, print (PrintError ''Error fetching data range: '' RequestException) w1)
      | (Responded r, w1) \<Rightarrow>
          if status_code r = 429 then
            (case retry_after r of
               Malformed \<Rightarrow>
                 Some (None, print (PrintError ''Error fetching data range: '' ValueError) w1)
             | hdr \<Rightarrow>
                 (let secs = (case hdr of Seconds n \<Rightarrow> n | _ \<Rightarrow> 60);
                      w2 = print (Print (''Rate limit hit. Waiting '' @ show_int secs
                                           @ '' seconds...'')) w1
                  in if secs < 0
                     then Some (None,
                            print (PrintError ''Error fetching data range: '' ValueError) w2)
                     else get_cost_data_range server subscription_id start_date end_date
                            (sleep secs w2)))
          else if is_error_status (status_code r) then
            Some (None, print (PrintError ''Error fetching data range: '' HTTPError) w1)
          else
            (case json_properties r of
               None \<Rightarrow>
                 Some (None, print (PrintError ''Error fetching data range: '' JSONError) w1)
             | Some p \<Rightarrow> Some (Some p, w1)))"

declare get_cost_data_range.simps [code]




section \<open>Grouping the rows of a response by date\<close>

text \<open>
  Keys of the dictionary \<open>daily_data\<close>.  Python compares and hashes numbers by value, so
  an \<open>int\<close> and a \<open>float\<close> of the same value are the same key.
\<close>

datatype dkey = KNum rat | KStr string | KNone

fun cell_key :: "cell \<Rightarrow> dkey" where
  "cell_key (JNum n) = KNum (rat_of n)"
| "cell_key (JStr s) = KStr s"
| "cell_key JNull = KNone"

type_synonym daily_data = "dkey \<rightharpoonup> row list"

text \<open>
  \<open>next((i for i, col in enumerate(columns) if col['name'] == name), default)\<close>
\<close>

fun find_column :: "string \<Rightarrow> column list \<Rightarrow> nat \<Rightarrow> py_error + nat option" where
  "find_column name [] i = Inr None"
| "find_column name (col # cols) i =
     (case col of
        None \<Rightarrow> Inl KeyError
      | Some n \<Rightarrow> if n = name then Inr (Some i) else find_column name cols (Suc i))"

definition column_index :: "string \<Rightarrow> nat \<Rightarrow> column list \<Rightarrow> py_error + nat" where
  "column_index name dflt columns =
     (case find_column name columns 0 of
        Inl e \<Rightarrow> Inl e
      | Inr None \<Rightarrow> Inr dflt
      | Inr (Some i) \<Rightarrow> Inr i)"

text \<open>
  The three assignments \<open>cost_idx\<close>, \<open>date_idx\<close>, \<open>resource_idx\<close> of
  \<open>parse_range_response\<close> (main2.py, lines 185 to 187).
\<close>

definition column_indices :: "column list \<Rightarrow> py_error + nat \<times> nat \<times> nat" where
  "column_indices columns =
     (case column_index ''Cost'' 0 columns of
        Inl e \<Rightarrow> Inl e
      | Inr cost_idx \<Rightarrow>
          (case column_index ''UsageDate'' 1 columns of
             Inl e \<Rightarrow> Inl e
           | Inr date_idx \<Rightarrow>
               (case column_index ''ResourceType'' 2 columns of
                  Inl e \<Rightarrow> Inl e
                | Inr resource_idx \<Rightarrow> Inr (cost_idx, date_idx, resource_idx))))"

text \<open>The loop of \<open>parse_range_response\<close> (lines 191 to 195).\<close>

fun group_rows :: "nat \<Rightarrow> daily_data \<Rightarrow> row list \<Rightarrow> py_error + daily_data" where
  "group_rows date_idx daily_data [] = Inr daily_data"
| "group_rows date_idx daily_data (row # rows) =
     (if date_idx < length row
      then (let date = cell_key (row ! date_idx)
            in group_rows date_idx
                 (daily_data (date \<mapsto> (case daily_data date of None \<Rightarrow> [] | Some rs \<Rightarrow> rs) @ [row]))
                 rows)
      else Inl IndexError)"

text \<open>
  \<open>parse_range_response\<close> (main2.py, lines 178 to 197).  Of the three indices only
  \<open>date_idx\<close> is used, and only the grouped rows are returned.
\<close>

definition parse_range_response :: "properties \<Rightarrow> int \<Rightarrow> py_error + daily_data" where
  "parse_range_response response_data num_days =
     (if \<not> truthy response_data then Inr Map.empty
      else case prop_rows response_data of
        None \<Rightarrow> Inr Map.empty
      | Some rows \<Rightarrow>
          (case column_indices (case prop_columns response_data of None \<Rightarrow> [] | Some cs \<Rightarrow> cs) of
             Inl e \<Rightarrow> Inl e
           | Inr (cost_idx, date_idx, resource_idx) \<Rightarrow> group_rows date_idx Map.empty rows))"

section \<open>Tables of one subscription\<close>

text \<open>
  The dates of the window, oldest first: \<open>for i in range(num_days - 1, -1, -1)\<close> with
  \<open>date = datetime.now() - timedelta(days=i+1)\<close>.
\<close>

definition window :: "int \<Rightarrow> int \<Rightarrow> int list" where
  "window now num_days = map (\<lambda>i. now - (int i + 1)) (rev [0..<nat num_days])"

text \<open>\<open>daily_data.get(date_key, [])\<close>\<close>

definition day_rows_of :: "daily_data \<Rightarrow> int \<Rightarrow> row list" where
  "day_rows_of daily_data date =
     (case daily_data (KNum (of_int (date_key_of date))) of None \<Rightarrow> [] | Some rs \<Rightarrow> rs)"

fun collect_costs :: "daily_data \<Rightarrow> int list \<Rightarrow> py_error + costs list" where
  "collect_costs daily_data [] = Inr []"
| "collect_costs daily_data (date # dates) =
     (case process_cost_data (day_rows_of daily_data date) of
        Inl e \<Rightarrow> Inl e
      | Inr costs \<Rightarrow>
          (case collect_costs daily_data dates of
             Inl e \<Rightarrow> Inl e
           | Inr rest \<Rightarrow> Inr (costs # rest)))"

definition all_categories :: "category list" where
  "all_categories = [Databricks, Virtual_Machine, Storage, Others]"

text \<open>The choice of \<open>categories\<close> in \<open>generate_data_for_subscription\<close> (lines 277 to 282).\<close>

definition active_categories :: "string \<Rightarrow> costs list \<Rightarrow> category list" where
  "active_categories subscription_name all_costs =
     (if lower subscription_name = ''main''
      then (if list_ex (\<lambda>costs. py_gt0 (costs Databricks)) all_costs
            then all_categories
            else [Virtual_Machine, Storage, Others])
      else all_categories)"

text \<open>A row of the cost table: the date, then \<open>f"${costs[category]:.2f}"\<close> per category.\<close>

definition cost_row :: "category list \<Rightarrow> string \<Rightarrow> costs \<Rightarrow> string list" where
  "cost_row categories date_str costs =
     date_str # map (\<lambda>category. ''$'' @ format_2f False (costs category)) categories"

text \<open>The day-over-day change of one category (lines 299 to 305 and 439 to 445).\<close>

definition percent_change :: "pynum \<Rightarrow> pynum \<Rightarrow> py_error + pynum" where
  "percent_change prev_cost curr_cost =
     (if py_eq0 prev_cost
      then (if py_eq0 curr_cost then Inr (PyInt 0) else Inr (PyInt 100))
      else (case py_truediv (py_sub curr_cost prev_cost) prev_cost of
              Inl e \<Rightarrow> Inl e
            | Inr q \<Rightarrow> Inr (py_mul q (PyInt 100))))"

text \<open>\<open>f"{percent_change:+.2f}%"\<close>\<close>

definition percent_cell :: "pynum \<Rightarrow> pynum \<Rightarrow> py_error + string" where
  "percent_cell prev_cost curr_cost =
     (case percent_change prev_cost curr_cost of
        Inl e \<Rightarrow> Inl e
      | Inr p \<Rightarrow> Inr (format_2f True p @ ''%''))"

fun percent_cells :: "costs \<Rightarrow> costs \<Rightarrow> category list \<Rightarrow> py_error + string list" where
  "percent_cells prev_costs curr_costs [] = Inr []"
| "percent_cells prev_costs curr_costs (category # categories) =
     (case percent_cell (prev_costs category) (curr_costs category) of
        Inl e \<Rightarrow> Inl e
      | Inr c \<Rightarrow>
          (case percent_cells prev_costs curr_costs categories of
             Inl e \<Rightarrow> Inl e
           | Inr cs \<Rightarrow> Inr (c # cs)))"

text \<open>
  The loop \<open>for i in range(1, len(all_costs))\<close>: the first argument holds the date
  texts of the indices 1, 2, ...; each row compares \<open>all_costs[i-1]\<close> with
  \<open>all_costs[i]\<close>.
\<close>

fun percent_rows :: "string list \<Rightarrow> costs list \<Rightarrow> category list \<Rightarrow> py_error + string list list" where
  "percent_rows (d # ds) (prev_costs # curr_costs # rest) categories =
     (case percent_cells prev_costs curr_costs categories of
        Inl e \<Rightarrow> Inl e
      | Inr cells \<Rightarrow>
          (case percent_rows ds (curr_costs # rest) categories of
             Inl e \<Rightarrow> Inl e
           | Inr rows \<Rightarrow> Inr ((d # cells) # rows)))"
| "percent_rows ds all_costs categories = Inr []"

text \<open>The dictionary returned by \<open>generate_data_for_subscription\<close>.\<close>

record report =
  cost_table :: "string list list"
  percent_table :: "string list list"
  headers :: "string list"
  date_strings :: "string list"

text \<open>
  What \<open>generate_data_for_subscription\<close> returns: the tuple \<open>(None, None)\<close> of
  line 254, or the dictionary of line 313.
\<close>

datatype gen_result = NoneNone | Report report

text \<open>
  Truth value, as tested by \<open>if data:\<close> and by \<open>all_data[sub_name]\<close>: a tuple of two
  elements is not empty, and neither is a dictionary of four keys.
\<close>

fun gen_truthy :: "gen_result \<Rightarrow> bool" where
  "gen_truthy NoneNone = True"
| "gen_truthy (Report r) = True"

text \<open>
  The list \<open>all_costs\<close>, one breakdown per day of the window.  Both
  \<open>generate_data_for_subscription\<close> (lines 256 to 274) and
  \<open>generate_table_for_subscription\<close> (lines 391 to 405) compute it in this way.
\<close>

definition daily_breakdowns :: "int \<Rightarrow> int \<Rightarrow> properties \<Rightarrow> py_error + costs list" where
  "daily_breakdowns now num_days response_data =
     (case parse_range_response response_data num_days of
        Inl e \<Rightarrow> Inl e
      | Inr daily_data \<Rightarrow> collect_costs daily_data (window now num_days))"

text \<open>Lines 256 to 318 of \<open>generate_data_for_subscription\<close>, after the fetch.\<close>

definition build_report :: "int \<Rightarrow> string \<Rightarrow> int \<Rightarrow> properties \<Rightarrow> py_error + gen_result" where
  "build_report now subscription_name num_days response_data =
     (case daily_breakdowns now num_days response_data of
        Inl e \<Rightarrow> Inl e
      | Inr all_costs \<Rightarrow>
          (let date_strs = map strftime_md (window now num_days);
               categories = active_categories subscription_name all_costs;
               cost_table_data = map2 (cost_row categories) date_strs all_costs
           in case percent_rows (tl date_strs) all_costs categories of
                Inl e \<Rightarrow> Inl e
              | Inr percent_table_data \<Rightarrow>
                  Inr (Report \<lparr>cost_table = cost_table_data,
                               percent_table = percent_table_data,
                               headers = ''Date'' # map category_name categories,
                               date_strings = date_strs\<rparr>)))"

text \<open>\<open>generate_data_for_subscription\<close> (main2.py, lines 241 to 318).\<close>

definition generate_data_for_subscription ::
  "(nat \<Rightarrow> http_result) \<Rightarrow> int \<Rightarrow> string \<Rightarrow> string \<Rightarrow> int \<Rightarrow> world
     \<Rightarrow> ((py_error + gen_result) \<times> world) option" where
  "generate_data_for_subscription server now subscription_id subscription_name num_days w =
     (let w0 = print (Print (''\<newline>Fetching data for '' @ upper subscription_name
                               @ '' subscription...'')) w;
          end_date = now - 1;
          start_date = end_date - (num_days - 1)
      in case get_cost_data_range server subscription_id start_date end_date w0 of
           None \<Rightarrow> None
         | Some (response_data, w1) \<Rightarrow>
             (if (case response_data of None \<Rightarrow> True | Some p \<Rightarrow> \<not> truthy p)
              then Some (Inr NoneNone,
                     print (Print (''Failed to fetch data for '' @ subscription_name
                                     @ '' subscription.\<newline>'')) w1)
              else Some (build_report now subscription_name num_days (the response_data), w1)))"

text \<open>
  The dates of the percentage rows of the console table:
  \<open>datetime.now() - timedelta(days=len(all_costs)-i)\<close> for \<open>i\<close> from 1.
\<close>

definition console_percent_dates :: "int \<Rightarrow> nat \<Rightarrow> string list" where
  "console_percent_dates now n = map (\<lambda>i. strftime_md (now - (int n - int i))) [1..<n]"

definition console_headers :: "string list" where
  "console_headers = [''Date'', ''Databricks'', ''Virtual Machine'', ''Storage'', ''Others'']"

text \<open>
  Lines 391 to 452 of \<open>generate_table_for_subscription\<close>, after the fetch: the two
  tables are built for the four categories and printed.
\<close>

definition print_tables :: "int \<Rightarrow> int \<Rightarrow> properties \<Rightarrow> world \<Rightarrow> (py_error + unit) \<times> world" where
  "print_tables now num_days response_data w =
     (case daily_breakdowns now num_days response_data of
        Inl e \<Rightarrow> (Inl e, w)
      | Inr all_costs \<Rightarrow>
          (let table_data = map2 (cost_row all_categories)
                              (map strftime_md (window now num_days)) all_costs;
               w1 = print (Print '''')
                      (print (Tabulate console_headers table_data)
                         (print (Print ''Cost Table:'') w));
               w2 = print (Print ''Percentage Change (Day over Day):'') w1
           in case percent_rows (console_percent_dates now (length all_costs))
                     all_costs all_categories of
                Inl e \<Rightarrow> (Inl e, w2)
              | Inr percent_table_data \<Rightarrow>
                  (Inr (),
                   print (Print '''')
                     (print (Tabulate console_headers percent_table_data) w2))))"

text \<open>\<open>generate_table_for_subscription\<close> (main2.py, lines 372 to 452).\<close>

definition generate_table_for_subscription ::
  "(nat \<Rightarrow> http_result) \<Rightarrow> int \<Rightarrow> string \<Rightarrow> string \<Rightarrow> int \<Rightarrow> world
     \<Rightarrow> ((py_error + unit) \<times> world) option" where
  "generate_table_for_subscription server now subscription_id subscription_name num_days w =
     (let end_date = now - 1;
          start_date = end_date - (num_days - 1);
          w0 = print (Print (''Fetching data from '' @ strftime_Y_m_d start_date @ '' to ''
                               @ strftime_Y_m_d end_date @ ''...''))
                 (print (Print (replicate 80 CHR ''='' @ ''\<newline>''))
                    (print (Print (upper subscription_name @ '' SUBSCRIPTION''))
                       (print (Print (''\<newline>'' @ replicate 80 CHR ''='')) w)))
      in case get_cost_data_range server subscription_id start_date end_date w0 of
           None \<Rightarrow> None
         | Some (response_data, w1) \<Rightarrow>
             (if (case response_data of None \<Rightarrow> True | Some p \<Rightarrow> \<not> truthy p)
              then Some (Inr (),
                     print (Print ''Failed to fetch data for this subscription.\<newline>'') w1)
              else Some (print_tables now num_days (the response_data) w1)))"

section \<open>The Word document and the run over the four subscriptions\<close>

text \<open>
  \<open>add_table_to_doc\<close> (main2.py, lines 213 to 239).  The table has \<open>len(headers)\<close>
  columns; writing a cell beyond them raises \<open>IndexError\<close>.
\<close>

definition add_table_to_doc ::
  "doc_item list \<Rightarrow> string list list \<Rightarrow> string list \<Rightarrow> string option
     \<Rightarrow> py_error + doc_item list" where
  "add_table_to_doc doc table_data hdrs title =
     (let doc1 = (case title of
                    None \<Rightarrow> doc
                  | Some t \<Rightarrow> if t = [] then doc else doc @ [Paragraph [t]])
      in if list_ex (\<lambda>row_data. length hdrs < length row_data) table_data
         then Inl IndexError
         else Inr (doc1 @ [DocTable hdrs table_data, Paragraph []]))"

text \<open>
  The loop over \<open>['prod', 'dev', 'test', 'main']\<close> of \<open>create_word_document\<close>
  (lines 346 to 358).  \<open>data['cost_table']\<close> raises \<open>TypeError\<close> when \<open>data\<close> is a
  tuple.
\<close>

fun add_sections ::
  "(string \<rightharpoonup> gen_result) \<Rightarrow> string list \<Rightarrow> doc_item list \<Rightarrow> py_error + doc_item list" where
  "add_sections all_data [] doc = Inr doc"
| "add_sections all_data (sub_name # rest) doc =
     (case all_data sub_name of
        None \<Rightarrow> add_sections all_data rest doc
      | Some data \<Rightarrow>
          if \<not> gen_truthy data then add_sections all_data rest doc
          else
            (let doc1 = doc @ [Heading 2 (capitalize sub_name @ '' Environment'')]
             in case data of
                  NoneNone \<Rightarrow> Inl TypeError
                | Report r \<Rightarrow>
                    (case add_table_to_doc doc1 (cost_table r) (headers r) None of
                       Inl e \<Rightarrow> Inl e
                     | Inr doc2 \<Rightarrow>
                         (case add_table_to_doc doc2 (percent_table r) (headers r)
                                 (Some (''Percentage difference for '' @ sub_name)) of
                            Inl e \<Rightarrow> Inl e
                          | Inr doc3 \<Rightarrow> add_sections all_data rest doc3))))"

text \<open>\<open>sep.join(xs)\<close>\<close>

fun join :: "string \<Rightarrow> string list \<Rightarrow> string" where
  "join sep [] = []"
| "join sep [x] = x"
| "join sep (x # y # ys) = x @ sep @ join sep (y # ys)"

text \<open>
  \<open>create_word_document\<close> (main2.py, lines 320 to 370).  \<open>stamp\<close> is
  \<open>datetime.now().strftime('%Y%m%d_%H%M%S')\<close>.  The document is saved only when no
  exception was raised before \<open>doc.save\<close>.
\<close>

definition create_word_document ::
  "int \<Rightarrow> string \<Rightarrow> (string \<rightharpoonup> gen_result) \<Rightarrow> int \<Rightarrow> world \<Rightarrow> (py_error + string) \<times> world" where
  "create_word_document now stamp all_data num_days w =
     (let end_date = now - 1;
          start_date = end_date - (num_days - 1);
          date_list = map (\<lambda>i. strftime_A (start_date + int i) @ '' (''
                                  @ strftime_md (start_date + int i) @ '')'')
                        [0..<nat num_days];
          date_range_str = join '', '' date_list;
          doc = [Heading 0 ''Azure Cost Summary Report'',
                 Paragraph [''Hi Team,\<newline>\<newline>'',
                   ''Please find below the Azure cost summary for '' @ date_range_str
                   @ '' for all subscriptions, along with percentage changes compared to the previous day.\<newline>'']]
      in case add_sections all_data [''prod'', ''dev'', ''test'', ''main''] doc of
           Inl e \<Rightarrow> (Inl e, w)
         | Inr doc1 \<Rightarrow>
             (let doc2 = doc1 @ [Paragraph [''\<newline>Thank you.'']];
                  filename = ''Azure_Cost_Report_'' @ stamp @ ''.docx'';
                  w1 = w\<lparr>saved := saved w @ [(filename, doc2)]\<rparr>
              in (Inr filename,
                  print (Print (replicate 80 CHR ''=''))
                    (print (Print (''Word document created: '' @ filename))
                       (print (Print (''\<newline>'' @ replicate 80 CHR ''='')) w1)))))"

text \<open>
  The loop over \<open>enumerate(['main', 'prod', 'dev', 'test'])\<close> of the main block
  (lines 480 to 492); \<open>subscriptions\<close> maps a name to the subscription identifier.
  An exception ends the run.
\<close>

fun process_subscriptions ::
  "(nat \<Rightarrow> http_result) \<Rightarrow> int \<Rightarrow> (string \<Rightarrow> string) \<Rightarrow> int \<Rightarrow> (nat \<times> string) list
     \<Rightarrow> (string \<rightharpoonup> gen_result) \<Rightarrow> world
     \<Rightarrow> ((py_error + (string \<rightharpoonup> gen_result)) \<times> world) option" where
  "process_subscriptions server now subscriptions num_days [] all_data w = Some (Inr all_data, w)"
| "process_subscriptions server now subscriptions num_days ((idx, sub_name) # rest) all_data w =
     (case generate_table_for_subscription server now (subscriptions sub_name)
             (upper sub_name) num_days w of
        None \<Rightarrow> None
      | Some (Inl e, w1) \<Rightarrow> Some (Inl e, w1)
      | Some (Inr u, w1) \<Rightarrow>
          (case generate_data_for_subscription server now (subscriptions sub_name)
                  sub_name num_days w1 of
             None \<Rightarrow> None
           | Some (Inl e, w2) \<Rightarrow> Some (Inl e, w2)
           | Some (Inr data, w2) \<Rightarrow>
               (let all_data1 = (if gen_truthy data then all_data (sub_name \<mapsto> data)
                                 else all_data);
                    w3 = (if idx < 3
                          then sleep 2 (print (Print ''Waiting 2 seconds before next subscription...'') w2)
                          else w2)
                in process_subscriptions server now subscriptions num_days rest all_data1 w3)))"

text \<open>
  The main block after the prompt (main2.py, lines 471 to 502), for a given
  \<open>num_days\<close>.  The result is the file name of the saved document, or the exception
  that ended the run.
\<close>

definition main_program ::
  "(nat \<Rightarrow> http_result) \<Rightarrow> int \<Rightarrow> string \<Rightarrow> (string \<Rightarrow> string) \<Rightarrow> int \<Rightarrow> world
     \<Rightarrow> ((py_error + string) \<times> world) option" where
  "main_program server now stamp subscriptions num_days w =
     (let w0 = print (Print (replicate 80 CHR ''=''))
                 (print (Print (''AZURE COST REPORT - LAST '' @ show_int num_days
                                  @ '' DAYS (ending yesterday)''))
                    (print (Print (''\<newline>'' @ replicate 80 CHR ''='')) w))
      in case process_subscriptions server now subscriptions num_days
                [(0, ''main''), (1, ''prod''), (2, ''dev''), (3, ''test'')] Map.empty w0 of
           None \<Rightarrow> None
         | Some (Inl e, w1) \<Rightarrow> Some (Inl e, w1)
         | Some (Inr all_data, w1) \<Rightarrow>
             (let w2 = print (Print ''\<newline>Generating Word document...'')
                         (print (Print (replicate 80 CHR ''=''))
                            (print (Print ''Console report generation completed!'')
                               (print (Print (replicate 80 CHR ''='')) w1)))
              in case create_word_document now stamp all_data num_days w2 of
                   (Inl e, w3) \<Rightarrow> Some (Inl e, w3)
                 | (Inr filename, w3) \<Rightarrow>
                     Some (Inr filename,
                           print (Print ''\<newline>All tasks completed successfully!'') w3)))"

section \<open>Notions used to state the properties\<close>

text \<open>The number that \<open>cost = row[0]\<close> reads, and the bucket the row is added to.\<close>

definition row_cost :: "row \<Rightarrow> pynum" where
  "row_cost row = (case row of JNum c # _ \<Rightarrow> c | _ \<Rightarrow> PyInt 0)"

definition row_category :: "row \<Rightarrow> category" where
  "row_category row = (case resource_type_of row of Inr t \<Rightarrow> categorize t | Inl e \<Rightarrow> Others)"



text \<open>The four values of a breakdown, in the order of the dictionary.\<close>

definition bucket_values :: "costs \<Rightarrow> pynum list" where
  "bucket_values costs = map costs all_categories"


text \<open>
  \<open>add_exact a b\<close>: the addition \<open>a + b\<close> does not round.  Two ints always add exactly;
  with a float involved the operands and the sum must be below \<open>2 ^ 1023\<close> in
  magnitude (at most 1023 bits before the point) and the rounded sum must be the
  exact one.
\<close>

definition in_range :: "rat \<Rightarrow> bool" where
  "in_range r = (bit_length \<lceil>\<bar>r\<bar>\<rceil> \<le> 1023)"

fun add_exact :: "pynum \<Rightarrow> pynum \<Rightarrow> bool" where
  "add_exact (PyInt i) (PyInt j) = True"
| "add_exact a b =
     (in_range (rat_of a) \<and> in_range (rat_of b) \<and> in_range (rat_of a + rat_of b)
      \<and> fl (to_float a + to_float b) = rat_of a + rat_of b)"

text \<open>
  \<open>no_rounding costs rows\<close>: in the run of the loop of \<open>process_cost_data\<close> over \<open>rows\<close>,
  started with the accumulators \<open>costs\<close>, no addition rounds.
\<close>

fun no_rounding :: "costs \<Rightarrow> row list \<Rightarrow> bool" where
  "no_rounding costs [] = True"
| "no_rounding costs (row # rows) =
     (add_exact (costs (row_category row)) (row_cost row)
      \<and> no_rounding (costs (row_category row := py_add (costs (row_category row)) (row_cost row)))
           rows)"

text \<open>
  A row on which an iteration of the loop of \<open>process_cost_data\<close> raises nothing: it
  has a first cell, which is a number, and its third cell, if any, is a string.
\<close>

definition well_formed :: "row \<Rightarrow> bool" where
  "well_formed row =
     (case row of
        JNum c # _ \<Rightarrow>
          (if 2 < length row then (case row ! 2 of JStr s \<Rightarrow> True | _ \<Rightarrow> False) else True)
      | _ \<Rightarrow> False)"

text \<open>
  The value of an accumulator that has received the numbers \<open>xs\<close> without rounding:
  an int as long as all of them are ints, a float otherwise.
\<close>

fun is_int :: "pynum \<Rightarrow> bool" where
  "is_int (PyInt i) = True"
| "is_int x = False"

fun int_of :: "pynum \<Rightarrow> int" where
  "int_of (PyInt i) = i"
| "int_of x = 0"

definition exact_total :: "pynum list \<Rightarrow> pynum" where
  "exact_total xs =
     (if list_all is_int xs then PyInt (sum_list (map int_of xs))
      else PyFloat (sum_list (map rat_of xs)))"

section \<open>Concrete inputs\<close>


text \<open>Costs 0.1, 0.2 and 0.3 on one date, all of a resource type of the bucket Others.\<close>

definition order_rows :: "row list" where
  "order_rows =
     [[JNum (PyFloat (fl (1 / 10))), JNum (PyInt 20240101),
       JStr ''Microsoft.Network/publicIPAddresses''],
      [JNum (PyFloat (fl (2 / 10))), JNum (PyInt 20240101),
       JStr ''Microsoft.Network/publicIPAddresses''],
      [JNum (PyFloat (fl (3 / 10))), JNum (PyInt 20240101),
       JStr ''Microsoft.Network/publicIPAddresses'']]"

text \<open>Costs 0.5, 0.25, 3 (an int, in a row of one cell) and 0.25: their sums are exact.\<close>

definition exact_rows :: "row list" where
  "exact_rows =
     [[JNum (PyFloat (1 / 2)), JNum (PyInt 20240101), JStr ''Microsoft.Compute/virtualMachines''],
      [JNum (PyFloat (1 / 4)), JNum (PyInt 20240101), JStr ''Microsoft.Storage/storageAccounts''],
      [JNum (PyInt 3)],
      [JNum (PyFloat (1 / 4)), JNum (PyInt 20240101), JStr ''microsoft.compute/virtualmachines'']]"



text \<open>
  The text of a percentage cell (\<open>percent_cell\<close> never raises, lemma
  \<open>percent_cell_text\<close>), and the cells of a percentage row.
\<close>

definition percent_text :: "pynum \<Rightarrow> pynum \<Rightarrow> string" where
  "percent_text prev_cost curr_cost =
     (case percent_cell prev_cost curr_cost of Inr s \<Rightarrow> s | Inl e \<Rightarrow> [])"

definition percent_texts :: "costs \<Rightarrow> costs \<Rightarrow> category list \<Rightarrow> string list" where
  "percent_texts prev_costs curr_costs categories =
     map (\<lambda>category. percent_text (prev_costs category) (curr_costs category)) categories"

definition percent_table_of :: "string list \<Rightarrow> costs list \<Rightarrow> category list \<Rightarrow> string list list" where
  "percent_table_of ds all_costs categories =
     map (\<lambda>(d, prev_costs, curr_costs). d # percent_texts prev_costs curr_costs categories)
       (zip ds (zip all_costs (tl all_costs)))"


text \<open>
  A response that \<open>parse_range_response\<close> and \<open>process_cost_data\<close> handle without
  raising: every column description has a name, and every row has a cell at the
  position of the date and is well formed.
\<close>

definition columns_of :: "properties \<Rightarrow> column list" where
  "columns_of p = (case prop_columns p of None \<Rightarrow> [] | Some cs \<Rightarrow> cs)"

definition response_ok :: "properties \<Rightarrow> bool" where
  "response_ok p =
     (case prop_rows p of
        None \<Rightarrow> True
      | Some rows \<Rightarrow>
          (case column_indices (columns_of p) of
             Inl e \<Rightarrow> False
           | Inr (cost_idx, date_idx, resource_idx) \<Rightarrow>
               list_all (\<lambda>row. date_idx < length row \<and> well_formed row) rows))"

text \<open>
  The rows of a response for one date: those whose cell at the position \<open>date_idx\<close>
  is the key of the date.
\<close>

definition date_index :: "properties \<Rightarrow> nat" where
  "date_index p =
     (case column_indices (columns_of p) of
        Inr (cost_idx, date_idx, resource_idx) \<Rightarrow> date_idx
      | Inl e \<Rightarrow> 1)"

definition rows_on :: "properties \<Rightarrow> int \<Rightarrow> row list" where
  "rows_on p date =
     (if truthy p
      then filter (\<lambda>row. cell_key (row ! date_index p) = KNum (of_int (date_key_of date)))
             (case prop_rows p of None \<Rightarrow> [] | Some rows \<Rightarrow> rows)
      else [])"


text \<open>
  Responses of the cost query with the columns in the order Cost, UsageDate,
  ResourceType, ChargeType, Currency.  \<open>usage_row\<close> builds one row.
\<close>

definition azure_columns :: "column list" where
  "azure_columns =
     [Some ''Cost'', Some ''UsageDate'', Some ''ResourceType'', Some ''ChargeType'',
      Some ''Currency'']"

definition usage_row :: "rat \<Rightarrow> int \<Rightarrow> string \<Rightarrow> row" where
  "usage_row cost date resource_type =
     [JNum (PyFloat cost), JNum (PyInt date), JStr resource_type, JStr ''Usage'', JStr ''USD'']"

text \<open>
  Three days: virtual machines 10 and storage 5 on 2024-01-01, virtual machines 20 and
  storage 5 on 2024-01-02, storage 5 on 2024-01-03.
\<close>

definition sample_response :: properties where
  "sample_response =
     \<lparr>prop_rows = Some
        [usage_row 10 20240101 ''Microsoft.Compute/virtualMachines'',
         usage_row 5 20240101 ''Microsoft.Storage/storageAccounts'',
         usage_row 20 20240102 ''Microsoft.Compute/virtualMachines'',
         usage_row 5 20240102 ''Microsoft.Storage/storageAccounts'',
         usage_row 5 20240103 ''Microsoft.Storage/storageAccounts''],
      prop_columns = Some azure_columns,
      prop_other_keys = True\<rparr>"




text \<open>The ordinals of 2024-01-02 and of 2024-01-04, as values of \<open>now\<close>.\<close>

definition jan_2 :: int where
  "jan_2 = 738887"

definition jan_4 :: int where
  "jan_4 = 738889"

text \<open>The state before a run: nothing sent, slept, printed or saved.\<close>

definition empty_world :: world where
  "empty_world = \<lparr>sent = [], slept = [], console = [], saved = []\<rparr>"


definition ok_response :: "properties \<Rightarrow> http_result" where
  "ok_response p = Responded \<lparr>status_code = 200, retry_after = Absent, json_properties = Some p\<rparr>"

definition error_response :: http_result where
  "error_response = Responded \<lparr>status_code = 500, retry_after = Absent, json_properties = None\<rparr>"



text \<open>
  A response whose schema lists the columns in the order UsageDate, Cost, ResourceType,
  with one row: a storage account with a cost of 5 on 2024-01-01.
\<close>

definition reordered_response :: properties where
  "reordered_response =
     \<lparr>prop_rows = Some
        [[JNum (PyInt 20240101), JNum (PyFloat 5), JStr ''Microsoft.Storage/storageAccounts'']],
      prop_columns = Some [Some ''UsageDate'', Some ''Cost'', Some ''ResourceType''],
      prop_other_keys = True\<rparr>"

text \<open>
  A run of the main block posts two requests per subscription, in the order main, prod,
  dev, test.  \<open>prod_fails_server\<close> answers the two requests for prod (numbers 2 and 3)
  with status 500 and every other request with \<open>sample_response\<close>.
\<close>

definition prod_fails_server :: "nat \<Rightarrow> http_result" where
  "prod_fails_server k =
     (if k = 2 \<or> k = 3 then error_response else ok_response sample_response)"

definition subscription_ids :: "string \<Rightarrow> string" where
  "subscription_ids name = ''id-'' @ name"






text \<open>
  Outcomes of a request of the range fetch: \<open>succeeds\<close> is a response with status 200
  whose properties are not empty and are handled without raising; \<open>http_error\<close> is a
  response with a status from 400 to 599 other than 429.
\<close>

definition succeeds :: "http_result \<Rightarrow> bool" where
  "succeeds res =
     (case res of
        Raised \<Rightarrow> False
      | Responded r \<Rightarrow>
          status_code r = 200
          \<and> (case json_properties r of None \<Rightarrow> False | Some p \<Rightarrow> truthy p \<and> response_ok p))"

definition http_error :: "http_result \<Rightarrow> bool" where
  "http_error res =
     (case res of
        Raised \<Rightarrow> False
      | Responded r \<Rightarrow> status_code r \<noteq> 429 \<and> is_error_status (status_code r))"

text \<open>
  The number of tables printed on the console, and the number of notices of a failed
  fetch that \<open>generate_table_for_subscription\<close> has printed.
\<close>

fun is_table :: "console_item \<Rightarrow> bool" where
  "is_table (Tabulate hdrs rows) = True"
| "is_table item = False"

definition tables_printed :: "world \<Rightarrow> nat" where
  "tables_printed w = length (filter is_table (console w))"

definition failure_notices :: "world \<Rightarrow> nat" where
  "failure_notices w =
     length (filter (\<lambda>item. item = Print ''Failed to fetch data for this subscription.\<newline>'')
               (console w))"

text \<open>A report whose rows are as wide as its header.\<close>

definition fits :: "report \<Rightarrow> bool" where
  "fits r =
     (list_all (\<lambda>row. length row = length (headers r)) (cost_table r)
      \<and> list_all (\<lambda>row. length row = length (headers r)) (percent_table r))"

text \<open>The headings of level 2 of a document.\<close>

fun heading_of :: "doc_item \<Rightarrow> string list" where
  "heading_of (Heading level text) = (if level = 2 then [text] else [])"
| "heading_of item = []"

definition sections_of :: "doc_item list \<Rightarrow> string list" where
  "sections_of doc = concat (map heading_of doc)"

section \<open>The categorizer: conservation and row order\<close>

lemma process_row_Inr:
  "process_row costs row = Inr costs' \<Longrightarrow>
     costs' = costs (row_category row := py_add (costs (row_category row)) (row_cost row))"
  by (auto simp: process_row_def row_category_def row_cost_def
           split: list.splits sum.splits cell.splits)

lemma process_row_well_formed:
  "well_formed row \<Longrightarrow>
     process_row costs row
       = Inr (costs (row_category row := py_add (costs (row_category row)) (row_cost row)))"
  by (auto simp: well_formed_def process_row_def row_category_def row_cost_def
                 resource_type_of_def
           split: list.splits sum.splits cell.splits if_splits)

lemma process_rows_total:
  "list_all well_formed rows \<Longrightarrow> \<exists>c. process_rows costs rows = Inr c"
  by (induction rows arbitrary: costs) (simp_all add: process_row_well_formed)




text \<open>Integer costs never round.\<close>

lemma no_rounding_ints:
  "\<forall>k. is_int (costs k) \<Longrightarrow> list_all (\<lambda>row. is_int (row_cost row)) rows \<Longrightarrow>
     no_rounding costs rows"
proof (induction rows arbitrary: costs)
  case Nil
  then show ?case by simp
next
  case (Cons row rows)
  obtain i where i: "costs (row_category row) = PyInt i"
    using Cons.prems(1) by (cases "costs (row_category row)") (auto dest: spec [of _ "row_category row"])
  obtain j where j: "row_cost row = PyInt j"
    using Cons.prems(2) by (cases "row_cost row") auto
  have "\<forall>k. is_int ((costs (row_category row := py_add (costs (row_category row)) (row_cost row))) k)"
    using Cons.prems(1) i j by simp
  then show ?case
    using Cons.IH Cons.prems(2) i j by simp
qed

lemma rat_of_ints:
  "list_all is_int xs \<Longrightarrow> sum_list (map rat_of xs) = of_int (sum_list (map int_of xs))"
proof (induction xs)
  case Nil
  then show ?case by simp
next
  case (Cons x xs)
  then show ?case by (cases x) simp_all
qed

lemma exact_total_snoc:
  "add_exact (exact_total xs) x \<Longrightarrow> py_add (exact_total xs) x = exact_total (xs @ [x])"
  by (cases x) (auto simp: exact_total_def rat_of_ints)

lemma process_rows_exact_total:
  "process_rows costs rows = Inr c \<Longrightarrow> no_rounding costs rows \<Longrightarrow>
   (\<And>k. costs k = exact_total (acc k)) \<Longrightarrow>
     c k = exact_total (acc k @ map row_cost (filter (\<lambda>row. row_category row = k) rows))"
proof (induction rows arbitrary: costs acc)
  case Nil
  from Nil.prems(1) have "c = costs" by simp
  then show ?case using Nil.prems(3) by simp
next
  case (Cons row rows)
  let ?k = "row_category row"
  let ?costs' = "costs (?k := py_add (costs ?k) (row_cost row))"
  let ?acc' = "acc (?k := acc ?k @ [row_cost row])"
  from Cons.prems(1) obtain costs' where
    step: "process_row costs row = Inr costs'" and rest: "process_rows costs' rows = Inr c"
    by (auto split: sum.splits)
  have upd: "costs' = ?costs'"
    using step by (rule process_row_Inr)
  have ex: "add_exact (costs ?k) (row_cost row)" and nr: "no_rounding ?costs' rows"
    using Cons.prems(2) by simp_all
  have inv: "?costs' j = exact_total (?acc' j)" for j
    using ex exact_total_snoc [of "acc ?k" "row_cost row"] Cons.prems(3) by simp
  have "c k = exact_total (?acc' k @ map row_cost (filter (\<lambda>row. row_category row = k) rows))"
    using Cons.IH [OF rest [unfolded upd] nr inv] .
  then show ?case by simp
qed

lemma exact_total_mset: "mset xs = mset ys \<Longrightarrow> exact_total xs = exact_total ys"
proof -
  assume eq: "mset xs = mset ys"
  have "set xs = set ys"
    using eq by (rule mset_eq_setD)
  moreover have "sum_list (map int_of xs) = sum_list (map int_of ys)"
    using eq by (metis mset_map sum_mset_sum_list)
  moreover have "sum_list (map rat_of xs) = sum_list (map rat_of ys)"
    using eq by (metis mset_map sum_mset_sum_list)
  ultimately show ?thesis
    by (simp add: exact_total_def list_all_iff)
qed

lemma process_cost_data_exact_total:
  "process_cost_data rows = Inr c \<Longrightarrow> no_rounding initial_costs rows \<Longrightarrow>
     c k = exact_total (map row_cost (filter (\<lambda>row. row_category row = k) rows))"
  using process_rows_exact_total [of initial_costs rows c "\<lambda>k. []" k]
  by (simp add: process_cost_data_def initial_costs_def exact_total_def)





text \<open>
  Claim C8 says that every permutation of the rows of a date gives the same breakdown,
  the accumulation being commutative and associative.  Float addition is not
  associative: the rows \<open>order_rows\<close> (0.1, 0.2, 0.3) give 0.6000000000000001 in the
  bucket Others, and the same rows in reverse order give 0.6.
\<close>

theorem order_counterexample:
  "mset (rev order_rows) = mset order_rows
   \<and> map_sum id bucket_values (process_cost_data order_rows)
     = Inr [PyInt 0, PyInt 0, PyInt 0, PyFloat (1351079888211149 / 2251799813685248)]
   \<and> map_sum id bucket_values (process_cost_data (rev order_rows))
     = Inr [PyInt 0, PyInt 0, PyInt 0, PyFloat (5404319552844595 / 9007199254740992)]"
proof -
  have "map_sum id bucket_values (process_cost_data order_rows)
     = Inr [PyInt 0, PyInt 0, PyInt 0, PyFloat (1351079888211149 / 2251799813685248)]"
    by code_simp
  moreover have "map_sum id bucket_values (process_cost_data (rev order_rows))
     = Inr [PyInt 0, PyInt 0, PyInt 0, PyFloat (5404319552844595 / 9007199254740992)]"
    by code_simp
  ultimately show ?thesis by simp
qed

text \<open>
  Claim C8 as amended: a permutation of the rows of a date gives the same breakdown
  whenever no row raises and no addition rounds, in the given order and in the
  permuted one (as is always the case for integer costs).
\<close>

theorem order_irrelevant_when_exact:
  "mset rows' = mset rows \<Longrightarrow> list_all well_formed rows \<Longrightarrow>
   no_rounding initial_costs rows \<Longrightarrow> no_rounding initial_costs rows' \<Longrightarrow>
     \<exists>c. process_cost_data rows = Inr c \<and> process_cost_data rows' = Inr c"
proof -
  assume eq: "mset rows' = mset rows" and wf: "list_all well_formed rows"
    and nr: "no_rounding initial_costs rows" and nr': "no_rounding initial_costs rows'"
  have "set rows' = set rows"
    using eq by (rule mset_eq_setD)
  then have wf': "list_all well_formed rows'"
    using wf by (simp add: list_all_iff)
  obtain c where c: "process_cost_data rows = Inr c"
    using process_rows_total [OF wf] by (auto simp: process_cost_data_def)
  obtain c' where c': "process_cost_data rows' = Inr c'"
    using process_rows_total [OF wf'] by (auto simp: process_cost_data_def)
  have "c' k = c k" for k
  proof -
    have "mset (map row_cost (filter (\<lambda>row. row_category row = k) rows'))
            = mset (map row_cost (filter (\<lambda>row. row_category row = k) rows))"
      using eq by simp
    then show ?thesis
      using process_cost_data_exact_total [OF c nr, of k]
            process_cost_data_exact_total [OF c' nr', of k]
      by (simp add: exact_total_mset)
  qed
  then have "c' = c" by (simp add: fun_eq_iff)
  then show ?thesis using c c' by simp
qed

theorem order_irrelevant_when_exact_witness:
  "mset (rev exact_rows) = mset exact_rows \<and> list_all well_formed exact_rows
   \<and> no_rounding initial_costs exact_rows \<and> no_rounding initial_costs (rev exact_rows)
   \<and> (\<exists>c. process_cost_data exact_rows = Inr c \<and> process_cost_data (rev exact_rows) = Inr c)"
proof -
  have eq: "mset (rev exact_rows) = mset exact_rows" by simp
  have wf: "list_all well_formed exact_rows" by code_simp
  have nr: "no_rounding initial_costs exact_rows" by code_simp
  have nr': "no_rounding initial_costs (rev exact_rows)" by code_simp
  show ?thesis
    using eq wf nr nr' order_irrelevant_when_exact [OF eq wf nr nr'] by simp
qed

section \<open>Percentage changes and their rendering\<close>






lemma py_truediv_Inr: "rat_of b \<noteq> 0 \<Longrightarrow> \<exists>q. py_truediv a b = Inr q"
  by (cases a; cases b) auto

lemma percent_change_total: "\<exists>p. percent_change prev_cost curr_cost = Inr p"
  using py_truediv_Inr [of prev_cost "py_sub curr_cost prev_cost"]
  by (auto simp: percent_change_def py_eq0_def)

lemma percent_cell_text: "percent_cell prev_cost curr_cost = Inr (percent_text prev_cost curr_cost)"
  using percent_change_total [of prev_cost curr_cost]
  by (auto simp: percent_cell_def percent_text_def)





lemma percent_cells_eq:
  "percent_cells prev_costs curr_costs categories
     = Inr (percent_texts prev_costs curr_costs categories)"
  by (induction categories) (simp_all add: percent_texts_def percent_cell_text)

lemma percent_rows_eq:
  "percent_rows ds all_costs categories = Inr (percent_table_of ds all_costs categories)"
  by (induction ds all_costs categories rule: percent_rows.induct)
     (simp_all add: percent_table_of_def percent_cells_eq)

lemma length_percent_texts [simp]:
  "length (percent_texts prev_costs curr_costs categories) = length categories"
  by (simp add: percent_texts_def)



lemma row_length_percent_table_of:
  "list_all (\<lambda>row. length row = Suc (length categories))
     (percent_table_of ds all_costs categories)"
  by (auto simp: percent_table_of_def list_all_iff)

section \<open>The tables of a window\<close>

lemma length_window [simp]: "length (window now num_days) = nat num_days"
  by (simp add: window_def)

lemma nth_window: "i < nat num_days \<Longrightarrow> window now num_days ! i = now - (num_days - int i)"
  by (simp add: window_def rev_nth)

lemma collect_costs_Inr:
  "collect_costs daily_data dates = Inr all_costs \<Longrightarrow>
     length all_costs = length dates
     \<and> (\<forall>i < length dates.
           process_cost_data (day_rows_of daily_data (dates ! i)) = Inr (all_costs ! i))"
proof (induction dates arbitrary: all_costs)
  case Nil
  then show ?case by simp
next
  case (Cons date dates)
  from Cons.prems obtain costs rest where
    c: "process_cost_data (day_rows_of daily_data date) = Inr costs"
    and r: "collect_costs daily_data dates = Inr rest"
    and a: "all_costs = costs # rest"
    by (auto split: sum.splits)
  show ?case
    using Cons.IH [OF r] c a by (auto simp: nth_Cons split: nat.splits)
qed

lemma daily_breakdowns_length:
  "daily_breakdowns now num_days response_data = Inr all_costs \<Longrightarrow>
     length all_costs = nat num_days"
  by (auto simp: daily_breakdowns_def split: sum.splits dest: collect_costs_Inr)

lemma nth_upt_from_one: "Suc i < n \<Longrightarrow> [Suc 0..<n] ! i = Suc i"
  by simp

lemma console_percent_dates_eq:
  "console_percent_dates now (nat num_days) = tl (map strftime_md (window now num_days))"
proof (rule nth_equalityI)
  show "length (console_percent_dates now (nat num_days))
          = length (tl (map strftime_md (window now num_days)))"
    by (simp add: console_percent_dates_def)
next
  fix i
  assume "i < length (console_percent_dates now (nat num_days))"
  then have i: "Suc i < nat num_days"
    by (simp add: console_percent_dates_def)
  then have pos: "0 < num_days"
    by simp
  have "console_percent_dates now (nat num_days) ! i
          = strftime_md (now - (int (nat num_days) - int (Suc i)))"
    using i pos
    by (simp add: console_percent_dates_def) (subst nth_upt_from_one, simp_all)
  also have "\<dots> = strftime_md (window now num_days ! Suc i)"
    using i pos by (simp add: nth_window)
  also have "\<dots> = tl (map strftime_md (window now num_days)) ! i"
    using i by (simp add: nth_tl)
  finally show "console_percent_dates now (nat num_days) ! i
               = tl (map strftime_md (window now num_days)) ! i" .
qed

lemma build_report_eq:
  "daily_breakdowns now num_days response_data = Inr all_costs \<Longrightarrow>
     build_report now subscription_name num_days response_data
       = Inr (Report
           \<lparr>cost_table = map2 (cost_row (active_categories subscription_name all_costs))
                           (map strftime_md (window now num_days)) all_costs,
            percent_table = percent_table_of (tl (map strftime_md (window now num_days)))
                              all_costs (active_categories subscription_name all_costs),
            headers = ''Date'' # map category_name (active_categories subscription_name all_costs),
            date_strings = map strftime_md (window now num_days)\<rparr>)"
  by (simp add: build_report_def Let_def percent_rows_eq)

lemma print_tables_eq:
  "daily_breakdowns now num_days response_data = Inr all_costs \<Longrightarrow>
     print_tables now num_days response_data w
       = (Inr (),
          w\<lparr>console := console w @
               [Print ''Cost Table:'',
                Tabulate console_headers
                  (map2 (cost_row all_categories) (map strftime_md (window now num_days)) all_costs),
                Print '''',
                Print ''Percentage Change (Day over Day):'',
                Tabulate console_headers
                  (percent_table_of (tl (map strftime_md (window now num_days)))
                     all_costs all_categories),
                Print '''']\<rparr>)"
  using daily_breakdowns_length [of now num_days response_data all_costs]
  by (simp add: print_tables_def Let_def percent_rows_eq print_def console_percent_dates_eq)


lemma cost_rows_length:
  "list_all (\<lambda>row. length row = Suc (length categories)) (map2 (cost_row categories) ds all_costs)"
  by (auto simp: list_all_iff cost_row_def set_zip)




section \<open>Grouping by date\<close>

lemma group_rows_Inr:
  "list_all (\<lambda>row. date_idx < length row) rows \<Longrightarrow>
     group_rows date_idx daily_data rows
       = Inr (\<lambda>k. if filter (\<lambda>row. cell_key (row ! date_idx) = k) rows = [] then daily_data k
                   else Some ((case daily_data k of None \<Rightarrow> [] | Some rs \<Rightarrow> rs)
                              @ filter (\<lambda>row. cell_key (row ! date_idx) = k) rows))"
proof (induction rows arbitrary: daily_data)
  case Nil
  then show ?case by simp
next
  case (Cons row rows)
  then have len: "date_idx < length row" and rest: "list_all (\<lambda>row. date_idx < length row) rows"
    by simp_all
  show ?case
    using len by (simp add: Cons.IH [OF rest] Let_def fun_eq_iff)
qed

lemma parse_range_response_ok:
  "response_ok p \<Longrightarrow>
     parse_range_response p num_days
       = Inr (\<lambda>k. if filter (\<lambda>row. cell_key (row ! date_index p) = k)
                        (case prop_rows p of None \<Rightarrow> [] | Some rows \<Rightarrow> rows) = [] \<or> \<not> truthy p
                   then None
                   else Some (filter (\<lambda>row. cell_key (row ! date_index p) = k)
                                (case prop_rows p of None \<Rightarrow> [] | Some rows \<Rightarrow> rows)))"
proof (cases "prop_rows p")
  case None
  then show ?thesis by (simp add: parse_range_response_def)
next
  case (Some rows)
  assume ok: "response_ok p"
  then obtain cost_idx date_idx resource_idx where
    ci: "column_indices (columns_of p) = Inr (cost_idx, date_idx, resource_idx)"
    and all: "list_all (\<lambda>row. date_idx < length row \<and> well_formed row) rows"
    using Some by (auto simp: response_ok_def split: sum.splits)
  have len: "list_all (\<lambda>row. date_idx < length row) rows"
    using all by (simp add: list_all_iff)
  have t: "truthy p"
    using Some by (simp add: truthy_def)
  show ?thesis
    using Some ci t
    by (simp add: parse_range_response_def columns_of_def [symmetric] date_index_def
                  group_rows_Inr [OF len] fun_eq_iff)
qed

lemma day_rows_of_parse:
  "response_ok p \<Longrightarrow> parse_range_response p num_days = Inr daily_data \<Longrightarrow>
     day_rows_of daily_data date = rows_on p date"
  by (auto simp: parse_range_response_ok day_rows_of_def rows_on_def)

lemma rows_on_well_formed: "response_ok p \<Longrightarrow> list_all well_formed (rows_on p date)"
  by (auto simp: response_ok_def rows_on_def list_all_iff split: option.splits sum.splits)

lemma process_cost_data_total:
  "list_all well_formed rows \<Longrightarrow> \<exists>c. process_cost_data rows = Inr c"
  by (simp add: process_cost_data_def process_rows_total)

lemma collect_costs_total:
  "(\<And>date. list_all well_formed (day_rows_of daily_data date)) \<Longrightarrow>
     \<exists>all_costs. collect_costs daily_data dates = Inr all_costs"
proof (induction dates)
  case Nil
  show ?case by simp
next
  case (Cons date dates)
  obtain c where "process_cost_data (day_rows_of daily_data date) = Inr c"
    using process_cost_data_total [OF Cons.prems] by blast
  moreover obtain rest where "collect_costs daily_data dates = Inr rest"
    using Cons.IH Cons.prems by blast
  ultimately show ?case by simp
qed

text \<open>
  On a response that is handled without raising, the breakdowns of the days exist, one
  per day of the window, and the breakdown of a day is \<open>process_cost_data\<close> of the rows
  of that day.
\<close>

lemma daily_breakdowns_ok:
  "response_ok p \<Longrightarrow>
     \<exists>all_costs. daily_breakdowns now num_days p = Inr all_costs
        \<and> length all_costs = nat num_days
        \<and> (\<forall>i < nat num_days.
              process_cost_data (rows_on p (window now num_days ! i)) = Inr (all_costs ! i))"
proof -
  assume ok: "response_ok p"
  obtain daily_data where dd: "parse_range_response p num_days = Inr daily_data"
    using parse_range_response_ok [OF ok] by blast
  have rows: "day_rows_of daily_data date = rows_on p date" for date
    using ok dd by (rule day_rows_of_parse)
  have "list_all well_formed (day_rows_of daily_data date)" for date
    using rows_on_well_formed [OF ok] rows by simp
  then obtain all_costs where ac: "collect_costs daily_data (window now num_days) = Inr all_costs"
    using collect_costs_total by blast
  show ?thesis
    using collect_costs_Inr [OF ac] dd ac rows by (simp add: daily_breakdowns_def)
qed








section \<open>Rows of the tables\<close>




lemma nth_cost_rows:
  "i < length ds \<Longrightarrow> i < length all_costs \<Longrightarrow>
     map2 (cost_row categories) ds all_costs ! i = cost_row categories (ds ! i) (all_costs ! i)"
  by simp



lemma add_table_to_doc_fits:
  "list_all (\<lambda>row. length row = length hdrs) table_data \<Longrightarrow>
     add_table_to_doc doc table_data hdrs title
       = Inr ((case title of None \<Rightarrow> doc | Some t \<Rightarrow> if t = [] then doc else doc @ [Paragraph [t]])
              @ [DocTable hdrs table_data, Paragraph []])"
  by (auto simp: add_table_to_doc_def Let_def list_all_iff list_ex_iff)

lemma add_sections_report:
  "all_data sub_name = Some (Report r) \<Longrightarrow>
   list_all (\<lambda>row. length row = length (headers r)) (cost_table r) \<Longrightarrow>
   list_all (\<lambda>row. length row = length (headers r)) (percent_table r) \<Longrightarrow>
     add_sections all_data (sub_name # rest) doc
       = add_sections all_data rest
           (doc @ [Heading 2 (capitalize sub_name @ '' Environment''),
                   DocTable (headers r) (cost_table r),
                   Paragraph [],
                   Paragraph [''Percentage difference for '' @ sub_name],
                   DocTable (headers r) (percent_table r),
                   Paragraph []])"
  by (simp add: add_table_to_doc_fits Let_def)







section \<open>Rate limiting\<close>

lemma world_simps [simp]:
  "sent (print item w) = sent w" "slept (print item w) = slept w"
  "console (print item w) = console w @ [item]" "saved (print item w) = saved w"
  "sent (sleep secs w) = sent w" "slept (sleep secs w) = slept w @ [secs]"
  "console (sleep secs w) = console w" "saved (sleep secs w) = saved w"
  by (simp_all add: print_def sleep_def)

lemma post_simps [simp]:
  "fst (post server req w) = server (length (sent w))"
  "sent (snd (post server req w)) = sent w @ [req]"
  "slept (snd (post server req w)) = slept w"
  "console (snd (post server req w)) = console w"
  "saved (snd (post server req w)) = saved w"
  by (simp_all add: post_def)


lemma range_fetch_success:
  assumes "server (length (sent w)) = Responded r" and "status_code r = 200"
    and "json_properties r = Some p"
  shows "get_cost_data_range server subscription_id start_date end_date w
           = Some (Some p, snd (post server (range_request subscription_id start_date end_date) w))"
  using assms
  by (subst get_cost_data_range.simps) (simp add: post_def is_error_status_def)

lemma range_fetch_failure:
  assumes "server (length (sent w)) = Raised
           \<or> (\<exists>r. server (length (sent w)) = Responded r \<and> status_code r \<noteq> 429
                  \<and> (is_error_status (status_code r) \<or> json_properties r = None))"
  shows "\<exists>w'. get_cost_data_range server subscription_id start_date end_date w = Some (None, w')
              \<and> sent w' = sent w @ [range_request subscription_id start_date end_date]
              \<and> slept w' = slept w"
  using assms
  by (subst get_cost_data_range.simps) (auto simp: post_def print_def)










section \<open>One subscription, fetched or not\<close>

lemma range_fetch_error:
  assumes "server (length (sent w)) = Responded r" and "status_code r \<noteq> 429"
    and "is_error_status (status_code r)"
  shows "get_cost_data_range server subscription_id start_date end_date w
           = Some (None, print (PrintError ''Error fetching data range: '' HTTPError)
                           (snd (post server (range_request subscription_id start_date end_date) w)))"
  using assms
  by (subst get_cost_data_range.simps) (simp add: post_def)

lemma build_report_ok:
  "response_ok p \<Longrightarrow>
     \<exists>r. build_report now subscription_name num_days p = Inr (Report r)
        \<and> list_all (\<lambda>row. length row = length (headers r)) (cost_table r)
        \<and> list_all (\<lambda>row. length row = length (headers r)) (percent_table r)"
proof -
  assume ok: "response_ok p"
  obtain all_costs where ac: "daily_breakdowns now num_days p = Inr all_costs"
    using daily_breakdowns_ok [OF ok] by blast
  let ?cats = "active_categories subscription_name all_costs"
  have c: "list_all (\<lambda>row. length row = Suc (length ?cats))
             (map2 (cost_row ?cats) (map strftime_md (window now num_days)) all_costs)"
    by (rule cost_rows_length)
  have p: "list_all (\<lambda>row. length row = Suc (length ?cats))
             (percent_table_of (tl (map strftime_md (window now num_days))) all_costs ?cats)"
    by (rule row_length_percent_table_of)
  show ?thesis
    using c p unfolding build_report_eq [OF ac] by simp
qed

lemma generate_data_for_subscription_ok:
  assumes "server (length (sent w)) = Responded r" and "status_code r = 200"
    and "json_properties r = Some p" and "truthy p"
  shows "generate_data_for_subscription server now subscription_id subscription_name num_days w
           = Some (build_report now subscription_name num_days p,
                   w\<lparr>sent := sent w @ [range_request subscription_id (now - 1 - (num_days - 1))
                                        (now - 1)],
                     console := console w @
                       [Print (''\<newline>Fetching data for '' @ upper subscription_name
                                 @ '' subscription...'')]\<rparr>)"
  using assms
  by (simp add: generate_data_for_subscription_def Let_def range_fetch_success
                post_def print_def)

lemma generate_data_for_subscription_error:
  assumes "server (length (sent w)) = Responded r" and "status_code r \<noteq> 429"
    and "is_error_status (status_code r)"
  shows "generate_data_for_subscription server now subscription_id subscription_name num_days w
           = Some (Inr NoneNone,
                   w\<lparr>sent := sent w @ [range_request subscription_id (now - 1 - (num_days - 1))
                                        (now - 1)],
                     console := console w @
                       [Print (''\<newline>Fetching data for '' @ upper subscription_name
                                 @ '' subscription...''),
                        PrintError ''Error fetching data range: '' HTTPError,
                        Print (''Failed to fetch data for '' @ subscription_name
                                 @ '' subscription.\<newline>'')]\<rparr>)"
  using assms
  by (simp add: generate_data_for_subscription_def Let_def range_fetch_error
                post_def print_def)

lemma generate_table_for_subscription_ok:
  assumes "server (length (sent w)) = Responded r" and "status_code r = 200"
    and "json_properties r = Some p" and "truthy p" and "response_ok p"
  shows "\<exists>cost_rows percent_rows'.
           generate_table_for_subscription server now subscription_id subscription_name num_days w
             = Some (Inr (),
                     w\<lparr>sent := sent w @ [range_request subscription_id (now - 1 - (num_days - 1))
                                          (now - 1)],
                       console := console w @
                         [Print (''\<newline>'' @ replicate 80 CHR ''=''),
                          Print (upper subscription_name @ '' SUBSCRIPTION''),
                          Print (replicate 80 CHR ''='' @ ''\<newline>''),
                          Print (''Fetching data from ''
                                   @ strftime_Y_m_d (now - 1 - (num_days - 1)) @ '' to ''
                                   @ strftime_Y_m_d (now - 1) @ ''...''),
                          Print ''Cost Table:'',
                          Tabulate console_headers cost_rows,
                          Print '''',
                          Print ''Percentage Change (Day over Day):'',
                          Tabulate console_headers percent_rows',
                          Print '''']\<rparr>)"
proof -
  obtain all_costs where ac: "daily_breakdowns now num_days p = Inr all_costs"
    using daily_breakdowns_ok [OF assms(5)] by blast
  show ?thesis
    apply (rule exI [of _ "map2 (cost_row all_categories)
                             (map strftime_md (window now num_days)) all_costs"])
    apply (rule exI [of _ "percent_table_of (tl (map strftime_md (window now num_days)))
                             all_costs all_categories"])
    using assms(1-4)
    apply (simp add: generate_table_for_subscription_def Let_def range_fetch_success
                     print_tables_eq [OF ac] post_def print_def)
    done
qed

lemma generate_table_for_subscription_error:
  assumes "server (length (sent w)) = Responded r" and "status_code r \<noteq> 429"
    and "is_error_status (status_code r)"
  shows "generate_table_for_subscription server now subscription_id subscription_name num_days w
           = Some (Inr (),
                   w\<lparr>sent := sent w @ [range_request subscription_id (now - 1 - (num_days - 1))
                                        (now - 1)],
                     console := console w @
                       [Print (''\<newline>'' @ replicate 80 CHR ''=''),
                        Print (upper subscription_name @ '' SUBSCRIPTION''),
                        Print (replicate 80 CHR ''='' @ ''\<newline>''),
                        Print (''Fetching data from ''
                                 @ strftime_Y_m_d (now - 1 - (num_days - 1)) @ '' to ''
                                 @ strftime_Y_m_d (now - 1) @ ''...''),
                        PrintError ''Error fetching data range: '' HTTPError,
                        Print ''Failed to fetch data for this subscription.\<newline>'']\<rparr>)"
  using assms
  by (simp add: generate_table_for_subscription_def Let_def range_fetch_error
                post_def print_def)


section \<open>The run over the four subscriptions\<close>

lemma succeedsE:
  assumes "succeeds res"
  obtains r p where "res = Responded r" "status_code r = 200" "json_properties r = Some p"
    "truthy p" "response_ok p"
  using assms by (auto simp: succeeds_def split: http_result.splits option.splits)

lemma http_errorE:
  assumes "http_error res"
  obtains r where "res = Responded r" "status_code r \<noteq> 429" "is_error_status (status_code r)"
  using assms by (auto simp: http_error_def split: http_result.splits)

lemma banner_is_no_notice:
  "name @ '' SUBSCRIPTION'' \<noteq> ''Failed to fetch data for this subscription.\<newline>''"
proof
  assume "name @ '' SUBSCRIPTION'' = ''Failed to fetch data for this subscription.\<newline>''"
  then have "last (name @ '' SUBSCRIPTION'')
               = last ''Failed to fetch data for this subscription.\<newline>''"
    by (rule arg_cong)
  then show False by simp
qed

lemma rule_is_no_notice:
  "replicate 80 CHR ''='' @ rest \<noteq> ''Failed to fetch data for this subscription.\<newline>''"
proof
  assume "replicate 80 CHR ''='' @ rest = ''Failed to fetch data for this subscription.\<newline>''"
  then have "hd (replicate 80 CHR ''='' @ rest)
               = hd ''Failed to fetch data for this subscription.\<newline>''"
    by (rule arg_cong)
  then show False by (simp add: hd_append)
qed

lemma rule_is_no_notice' :
  "replicate 80 CHR ''='' \<noteq> ''Failed to fetch data for this subscription.\<newline>''"
  using rule_is_no_notice [of "[]"] by simp

lemma data_notice_is_no_notice:
  "sub_name \<noteq> ''this'' \<Longrightarrow>
     ''Failed to fetch data for '' @ sub_name @ '' subscription.\<newline>''
       \<noteq> ''Failed to fetch data for this subscription.\<newline>''"
proof
  assume n: "sub_name \<noteq> ''this''"
    and "''Failed to fetch data for '' @ sub_name @ '' subscription.\<newline>''
           = ''Failed to fetch data for this subscription.\<newline>''"
  then have "sub_name @ '' subscription.\<newline>'' = ''this'' @ '' subscription.\<newline>''"
    by simp
  then have "sub_name = ''this''"
    by (simp only: append_same_eq)
  then show False using n by simp
qed

lemmas no_notice = banner_is_no_notice rule_is_no_notice rule_is_no_notice'

lemma table_fetched:
  assumes "succeeds (server (length (sent w)))"
  shows "\<exists>w'. generate_table_for_subscription server now subscription_id subscription_name
                 num_days w = Some (Inr (), w')
            \<and> length (sent w') = Suc (length (sent w)) \<and> saved w' = saved w
            \<and> tables_printed w' = tables_printed w + 2
            \<and> failure_notices w' = failure_notices w"
proof -
  obtain r p where s: "server (length (sent w)) = Responded r" "status_code r = 200"
    "json_properties r = Some p" "truthy p" "response_ok p"
    using assms by (rule succeedsE)
  obtain cost_rows percent_rows' where
    t: "generate_table_for_subscription server now subscription_id subscription_name num_days w
          = Some (Inr (),
                  w\<lparr>sent := sent w @ [range_request subscription_id (now - 1 - (num_days - 1))
                                       (now - 1)],
                    console := console w @
                      [Print (''\<newline>'' @ replicate 80 CHR ''=''),
                       Print (upper subscription_name @ '' SUBSCRIPTION''),
                       Print (replicate 80 CHR ''='' @ ''\<newline>''),
                       Print (''Fetching data from ''
                                @ strftime_Y_m_d (now - 1 - (num_days - 1)) @ '' to ''
                                @ strftime_Y_m_d (now - 1) @ ''...''),
                       Print ''Cost Table:'',
                       Tabulate console_headers cost_rows,
                       Print '''',
                       Print ''Percentage Change (Day over Day):'',
                       Tabulate console_headers percent_rows',
                       Print '''']\<rparr>)"
    using s generate_table_for_subscription_ok
            [where server = server and w = w and r = r and p = p and now = now
               and subscription_id = subscription_id
               and subscription_name = subscription_name and num_days = num_days]
    by blast
  show ?thesis
    unfolding t
    by (simp add: tables_printed_def failure_notices_def no_notice)
qed

lemma table_failed:
  assumes "http_error (server (length (sent w)))"
  shows "\<exists>w'. generate_table_for_subscription server now subscription_id subscription_name
                 num_days w = Some (Inr (), w')
            \<and> length (sent w') = Suc (length (sent w)) \<and> saved w' = saved w
            \<and> tables_printed w' = tables_printed w
            \<and> failure_notices w' = failure_notices w + 1"
proof -
  obtain r where e: "server (length (sent w)) = Responded r" "status_code r \<noteq> 429"
    "is_error_status (status_code r)"
    using assms by (rule http_errorE)
  show ?thesis
    unfolding generate_table_for_subscription_error
                [where server = server and w = w and r = r, OF e]
    by (simp add: tables_printed_def failure_notices_def no_notice)
qed

lemma data_fetched:
  assumes "succeeds (server (length (sent w)))"
  shows "\<exists>r w'. generate_data_for_subscription server now subscription_id subscription_name
                   num_days w = Some (Inr (Report r), w')
            \<and> fits r
            \<and> length (sent w') = Suc (length (sent w)) \<and> saved w' = saved w
            \<and> tables_printed w' = tables_printed w
            \<and> failure_notices w' = failure_notices w"
proof -
  obtain r p where s: "server (length (sent w)) = Responded r" "status_code r = 200"
    "json_properties r = Some p" "truthy p" "response_ok p"
    using assms by (rule succeedsE)
  obtain rep where r: "build_report now subscription_name num_days p = Inr (Report rep)"
    and f: "fits rep"
    using build_report_ok [OF s(5), of now subscription_name num_days]
    by (auto simp: fits_def)
  show ?thesis
    unfolding generate_data_for_subscription_ok
                [where server = server and w = w and r = r and p = p, OF s(1,2,3,4)] r
    using f by (simp add: tables_printed_def failure_notices_def)
qed

lemma data_failed:
  assumes "http_error (server (length (sent w)))" and "subscription_name \<noteq> ''this''"
  shows "\<exists>w'. generate_data_for_subscription server now subscription_id subscription_name
                 num_days w = Some (Inr NoneNone, w')
            \<and> length (sent w') = Suc (length (sent w)) \<and> saved w' = saved w
            \<and> tables_printed w' = tables_printed w
            \<and> failure_notices w' = failure_notices w"
proof -
  obtain r where e: "server (length (sent w)) = Responded r" "status_code r \<noteq> 429"
    "is_error_status (status_code r)"
    using assms(1) by (rule http_errorE)
  show ?thesis
    unfolding generate_data_for_subscription_error
                [where server = server and w = w and r = r, OF e]
    using data_notice_is_no_notice [OF assms(2)]
    by (simp add: tables_printed_def failure_notices_def)
qed

lemma waiting:
  "length (sent (if idx < (3::nat)
                 then sleep 2 (print (Print ''Waiting 2 seconds before next subscription...'') w)
                 else w)) = length (sent w)"
  "saved (if idx < (3::nat)
          then sleep 2 (print (Print ''Waiting 2 seconds before next subscription...'') w)
          else w) = saved w"
  "tables_printed (if idx < (3::nat)
          then sleep 2 (print (Print ''Waiting 2 seconds before next subscription...'') w)
          else w) = tables_printed w"
  "failure_notices (if idx < (3::nat)
          then sleep 2 (print (Print ''Waiting 2 seconds before next subscription...'') w)
          else w) = failure_notices w"
  by (simp_all add: tables_printed_def failure_notices_def print_def sleep_def)

lemma process_subscriptions_fetched:
  assumes "succeeds (server (length (sent w)))" and "succeeds (server (Suc (length (sent w))))"
  shows "\<exists>r w'. process_subscriptions server now subscriptions num_days
                   ((idx, sub_name) # rest) all_data w
                 = process_subscriptions server now subscriptions num_days rest
                     (all_data (sub_name \<mapsto> Report r)) w'
              \<and> fits r
              \<and> length (sent w') = length (sent w) + 2 \<and> saved w' = saved w
              \<and> tables_printed w' = tables_printed w + 2
              \<and> failure_notices w' = failure_notices w"
proof -
  obtain w1 where t: "generate_table_for_subscription server now (subscriptions sub_name)
                        (upper sub_name) num_days w = Some (Inr (), w1)"
    and w1: "length (sent w1) = Suc (length (sent w))" "saved w1 = saved w"
      "tables_printed w1 = tables_printed w + 2" "failure_notices w1 = failure_notices w"
    using table_fetched [where server = server and w = w] assms(1) by blast
  have s2: "succeeds (server (length (sent w1)))"
    using assms(2) w1(1) by simp
  obtain r w2 where d: "generate_data_for_subscription server now (subscriptions sub_name)
                          sub_name num_days w1 = Some (Inr (Report r), w2)"
    and f: "fits r"
    and w2: "length (sent w2) = Suc (length (sent w1))" "saved w2 = saved w1"
      "tables_printed w2 = tables_printed w1" "failure_notices w2 = failure_notices w1"
    using data_fetched [where server = server and w = w1] s2 by blast
  let ?w3 = "if idx < 3
             then sleep 2 (print (Print ''Waiting 2 seconds before next subscription...'') w2)
             else w2"
  have step: "process_subscriptions server now subscriptions num_days
                ((idx, sub_name) # rest) all_data w
              = process_subscriptions server now subscriptions num_days rest
                  (all_data (sub_name \<mapsto> Report r)) ?w3"
    by (simp only: process_subscriptions.simps t d option.case prod.case sum.case Let_def
                   gen_truthy.simps if_True)
  have "fits r \<and> length (sent ?w3) = length (sent w) + 2 \<and> saved ?w3 = saved w
        \<and> tables_printed ?w3 = tables_printed w + 2
        \<and> failure_notices ?w3 = failure_notices w"
    using f w1 w2 by (simp only: waiting) simp
  with step show ?thesis by blast
qed

lemma process_subscriptions_failed:
  assumes "http_error (server (length (sent w)))"
    and "http_error (server (Suc (length (sent w))))"
    and "sub_name \<noteq> ''this''"
  shows "\<exists>w'. process_subscriptions server now subscriptions num_days
                 ((idx, sub_name) # rest) all_data w
               = process_subscriptions server now subscriptions num_days rest
                   (all_data (sub_name \<mapsto> NoneNone)) w'
            \<and> length (sent w') = length (sent w) + 2 \<and> saved w' = saved w
            \<and> tables_printed w' = tables_printed w
            \<and> failure_notices w' = failure_notices w + 1"
proof -
  obtain w1 where t: "generate_table_for_subscription server now (subscriptions sub_name)
                        (upper sub_name) num_days w = Some (Inr (), w1)"
    and w1: "length (sent w1) = Suc (length (sent w))" "saved w1 = saved w"
      "tables_printed w1 = tables_printed w" "failure_notices w1 = failure_notices w + 1"
    using table_failed [where server = server and w = w] assms(1) by blast
  have e2: "http_error (server (length (sent w1)))"
    using assms(2) w1(1) by simp
  obtain w2 where d: "generate_data_for_subscription server now (subscriptions sub_name)
                        sub_name num_days w1 = Some (Inr NoneNone, w2)"
    and w2: "length (sent w2) = Suc (length (sent w1))" "saved w2 = saved w1"
      "tables_printed w2 = tables_printed w1" "failure_notices w2 = failure_notices w1"
    using data_failed [where server = server and w = w1] e2 assms(3) by blast
  let ?w3 = "if idx < 3
             then sleep 2 (print (Print ''Waiting 2 seconds before next subscription...'') w2)
             else w2"
  have step: "process_subscriptions server now subscriptions num_days
                ((idx, sub_name) # rest) all_data w
              = process_subscriptions server now subscriptions num_days rest
                  (all_data (sub_name \<mapsto> NoneNone)) ?w3"
    by (simp only: process_subscriptions.simps t d option.case prod.case sum.case Let_def
                   gen_truthy.simps if_True)
  have "length (sent ?w3) = length (sent w) + 2 \<and> saved ?w3 = saved w
        \<and> tables_printed ?w3 = tables_printed w
        \<and> failure_notices ?w3 = failure_notices w + 1"
    using w1 w2 by (simp only: waiting) simp
  with step show ?thesis by blast
qed

lemma add_sections_tuple:
  "all_data sub_name = Some NoneNone \<Longrightarrow>
     add_sections all_data (sub_name # rest) doc = Inl TypeError"
  by (simp add: Let_def)

lemma add_sections_fitting:
  "all_data sub_name = Some (Report r) \<Longrightarrow> fits r \<Longrightarrow>
     add_sections all_data (sub_name # rest) doc
       = add_sections all_data rest
           (doc @ [Heading 2 (capitalize sub_name @ '' Environment''),
                   DocTable (headers r) (cost_table r),
                   Paragraph [],
                   Paragraph [''Percentage difference for '' @ sub_name],
                   DocTable (headers r) (percent_table r),
                   Paragraph []])"
  by (rule add_sections_report) (simp_all add: fits_def)

lemma capitalize_names:
  "capitalize ''prod'' = ''Prod''" "capitalize ''dev'' = ''Dev''"
  "capitalize ''test'' = ''Test''" "capitalize ''main'' = ''Main''"
  by code_simp+

lemma sections_of_section:
  "sections_of (doc @ [Heading 2 text, DocTable hdrs rows, Paragraph [], Paragraph runs,
                       DocTable hdrs' rows', Paragraph []])
     = sections_of doc @ [text]"
  by (simp add: sections_of_def)

lemma sections_of_simps:
  "sections_of [] = []"
  "sections_of (item # doc) = heading_of item @ sections_of doc"
  "sections_of (doc @ doc') = sections_of doc @ sections_of doc'"
  by (simp_all add: sections_of_def)

lemma create_word_document_saved:
  assumes d: "\<And>doc. add_sections all_data [''prod'', ''dev'', ''test'', ''main''] doc
                      = Inr (sections doc)"
    and s: "\<And>doc. sections_of (sections doc) = sections_of doc @ names"
  shows "\<exists>doc w'. create_word_document now stamp all_data num_days w
                    = (Inr (''Azure_Cost_Report_'' @ stamp @ ''.docx''), w')
           \<and> saved w' = saved w @ [(''Azure_Cost_Report_'' @ stamp @ ''.docx'', doc)]
           \<and> sections_of doc = names
           \<and> length (sent w') = length (sent w)
           \<and> tables_printed w' = tables_printed w
           \<and> failure_notices w' = failure_notices w"
  apply (simp only: create_word_document_def Let_def d sum.case)
  apply (intro exI conjI)
       apply (rule refl)
      apply (simp add: print_def)
     apply (simp add: sections_of_simps s)
    apply (simp_all add: print_def tables_printed_def failure_notices_def no_notice)
  done

text \<open>
  For comparison, the run in which every fetch succeeds: the document is saved with
  the sections of the four subscriptions, in the order prod, dev, test, main.
\<close>

lemma all_fetched_run_saves_the_document:
  assumes "succeeds (server 0)" and "succeeds (server 1)"
    and "succeeds (server 2)" and "succeeds (server 3)"
    and "succeeds (server 4)" and "succeeds (server 5)"
    and "succeeds (server 6)" and "succeeds (server 7)"
  shows "\<exists>w doc. main_program server now stamp subscriptions num_days empty_world
                   = Some (Inr (''Azure_Cost_Report_'' @ stamp @ ''.docx''), w)
           \<and> saved w = [(''Azure_Cost_Report_'' @ stamp @ ''.docx'', doc)]
           \<and> sections_of doc = [''Prod Environment'', ''Dev Environment'',
                                 ''Test Environment'', ''Main Environment'']
           \<and> length (sent w) = 8 \<and> tables_printed w = 8 \<and> failure_notices w = 0"
proof -
  define w0 where
    "w0 = print (Print (replicate 80 CHR ''=''))
            (print (Print (''AZURE COST REPORT - LAST '' @ show_int num_days
                             @ '' DAYS (ending yesterday)''))
               (print (Print (''\<newline>'' @ replicate 80 CHR ''='')) empty_world))"
  have w0: "length (sent w0) = 0" "saved w0 = []" "tables_printed w0 = 0"
    "failure_notices w0 = 0"
    by (simp_all add: w0_def empty_world_def tables_printed_def failure_notices_def print_def
                      no_notice)
  have a1: "succeeds (server (length (sent w0)))" "succeeds (server (Suc (length (sent w0))))"
    using assms(1,2) w0(1) by simp_all
  obtain r0 w1 where
    p1: "process_subscriptions server now subscriptions num_days
           [(0, ''main''), (1, ''prod''), (2, ''dev''), (3, ''test'')] Map.empty w0
         = process_subscriptions server now subscriptions num_days
             [(1, ''prod''), (2, ''dev''), (3, ''test'')] [''main'' \<mapsto> Report r0] w1"
    and f0: "fits r0"
    and w1: "length (sent w1) = 2" "saved w1 = []" "tables_printed w1 = 2"
      "failure_notices w1 = 0"
    using process_subscriptions_fetched
            [where server = server and w = w0 and now = now and subscriptions = subscriptions
               and num_days = num_days and idx = 0 and sub_name = "''main''"
               and rest = "[(1, ''prod''), (2, ''dev''), (3, ''test'')]"
               and all_data = Map.empty]
          a1 w0
    by auto
  have a2: "succeeds (server (length (sent w1)))" "succeeds (server (Suc (length (sent w1))))"
    using assms(3,4) w1(1) by (simp_all add: numeral_3_eq_3)
  obtain r1 w2 where
    p2: "process_subscriptions server now subscriptions num_days
           [(1, ''prod''), (2, ''dev''), (3, ''test'')] [''main'' \<mapsto> Report r0] w1
         = process_subscriptions server now subscriptions num_days
             [(2, ''dev''), (3, ''test'')]
             [''main'' \<mapsto> Report r0, ''prod'' \<mapsto> Report r1] w2"
    and f1: "fits r1"
    and w2: "length (sent w2) = 4" "saved w2 = []" "tables_printed w2 = 4"
      "failure_notices w2 = 0"
    using process_subscriptions_fetched
            [where server = server and w = w1 and now = now and subscriptions = subscriptions
               and num_days = num_days and idx = 1 and sub_name = "''prod''"
               and rest = "[(2, ''dev''), (3, ''test'')]"
               and all_data = "[''main'' \<mapsto> Report r0]"]
          a2 w1
    by auto
  have a3: "succeeds (server (length (sent w2)))" "succeeds (server (Suc (length (sent w2))))"
    using assms(5,6) w2(1) by (simp_all add: eval_nat_numeral)
  obtain r2 w3 where
    p3: "process_subscriptions server now subscriptions num_days
           [(2, ''dev''), (3, ''test'')]
           [''main'' \<mapsto> Report r0, ''prod'' \<mapsto> Report r1] w2
         = process_subscriptions server now subscriptions num_days [(3, ''test'')]
             [''main'' \<mapsto> Report r0, ''prod'' \<mapsto> Report r1, ''dev'' \<mapsto> Report r2] w3"
    and f2: "fits r2"
    and w3: "length (sent w3) = 6" "saved w3 = []" "tables_printed w3 = 6"
      "failure_notices w3 = 0"
    using process_subscriptions_fetched
            [where server = server and w = w2 and now = now and subscriptions = subscriptions
               and num_days = num_days and idx = 2 and sub_name = "''dev''"
               and rest = "[(3, ''test'')]"
               and all_data = "[''main'' \<mapsto> Report r0, ''prod'' \<mapsto> Report r1]"]
          a3 w2
    by auto
  have a4: "succeeds (server (length (sent w3)))" "succeeds (server (Suc (length (sent w3))))"
    using assms(7,8) w3(1) by (simp_all add: eval_nat_numeral)
  obtain r3 w4 where
    p4: "process_subscriptions server now subscriptions num_days [(3, ''test'')]
           [''main'' \<mapsto> Report r0, ''prod'' \<mapsto> Report r1, ''dev'' \<mapsto> Report r2] w3
         = process_subscriptions server now subscriptions num_days []
             [''main'' \<mapsto> Report r0, ''prod'' \<mapsto> Report r1, ''dev'' \<mapsto> Report r2,
              ''test'' \<mapsto> Report r3] w4"
    and f3: "fits r3"
    and w4: "length (sent w4) = 8" "saved w4 = []" "tables_printed w4 = 8"
      "failure_notices w4 = 0"
    using process_subscriptions_fetched
            [where server = server and w = w3 and now = now and subscriptions = subscriptions
               and num_days = num_days and idx = 3 and sub_name = "''test''"
               and rest = "[]"
               and all_data = "[''main'' \<mapsto> Report r0, ''prod'' \<mapsto> Report r1,
                                ''dev'' \<mapsto> Report r2]"]
          a4 w3
    by auto
  define all_data where
    "all_data = [''main'' \<mapsto> Report r0, ''prod'' \<mapsto> Report r1, ''dev'' \<mapsto> Report r2,
                 ''test'' \<mapsto> Report r3]"
  have loop: "process_subscriptions server now subscriptions num_days
                [(0, ''main''), (1, ''prod''), (2, ''dev''), (3, ''test'')] Map.empty w0
              = Some (Inr all_data, w4)"
    unfolding p1 p2 p3 p4 all_data_def by simp
  have g: "all_data ''prod'' = Some (Report r1)" "all_data ''dev'' = Some (Report r2)"
    "all_data ''test'' = Some (Report r3)" "all_data ''main'' = Some (Report r0)"
    by (simp_all add: all_data_def)
  obtain doc1 where
    d: "\<And>doc. add_sections all_data [''prod'', ''dev'', ''test'', ''main''] doc = Inr (doc1 doc)"
    and s: "\<And>doc. sections_of (doc1 doc)
                   = sections_of doc @ [''Prod Environment'', ''Dev Environment'',
                                        ''Test Environment'', ''Main Environment'']"
  proof
    fix doc
    show "add_sections all_data [''prod'', ''dev'', ''test'', ''main''] doc
            = Inr ((\<lambda>doc.
                doc @ [Heading 2 (capitalize ''prod'' @ '' Environment''),
                       DocTable (headers r1) (cost_table r1), Paragraph [],
                       Paragraph [''Percentage difference for '' @ ''prod''],
                       DocTable (headers r1) (percent_table r1), Paragraph []]
                    @ [Heading 2 (capitalize ''dev'' @ '' Environment''),
                       DocTable (headers r2) (cost_table r2), Paragraph [],
                       Paragraph [''Percentage difference for '' @ ''dev''],
                       DocTable (headers r2) (percent_table r2), Paragraph []]
                    @ [Heading 2 (capitalize ''test'' @ '' Environment''),
                       DocTable (headers r3) (cost_table r3), Paragraph [],
                       Paragraph [''Percentage difference for '' @ ''test''],
                       DocTable (headers r3) (percent_table r3), Paragraph []]
                    @ [Heading 2 (capitalize ''main'' @ '' Environment''),
                       DocTable (headers r0) (cost_table r0), Paragraph [],
                       Paragraph [''Percentage difference for '' @ ''main''],
                       DocTable (headers r0) (percent_table r0), Paragraph []]) doc)"
      by (simp only:
            add_sections_fitting [where all_data = all_data and sub_name = "''prod''", OF g(1) f1]
            add_sections_fitting [where all_data = all_data and sub_name = "''dev''", OF g(2) f2]
            add_sections_fitting [where all_data = all_data and sub_name = "''test''", OF g(3) f3]
            add_sections_fitting [where all_data = all_data and sub_name = "''main''", OF g(4) f0]
            add_sections.simps(1) append_assoc)
  next
    fix doc
    show "sections_of ((\<lambda>doc.
                doc @ [Heading 2 (capitalize ''prod'' @ '' Environment''),
                       DocTable (headers r1) (cost_table r1), Paragraph [],
                       Paragraph [''Percentage difference for '' @ ''prod''],
                       DocTable (headers r1) (percent_table r1), Paragraph []]
                    @ [Heading 2 (capitalize ''dev'' @ '' Environment''),
                       DocTable (headers r2) (cost_table r2), Paragraph [],
                       Paragraph [''Percentage difference for '' @ ''dev''],
                       DocTable (headers r2) (percent_table r2), Paragraph []]
                    @ [Heading 2 (capitalize ''test'' @ '' Environment''),
                       DocTable (headers r3) (cost_table r3), Paragraph [],
                       Paragraph [''Percentage difference for '' @ ''test''],
                       DocTable (headers r3) (percent_table r3), Paragraph []]
                    @ [Heading 2 (capitalize ''main'' @ '' Environment''),
                       DocTable (headers r0) (cost_table r0), Paragraph [],
                       Paragraph [''Percentage difference for '' @ ''main''],
                       DocTable (headers r0) (percent_table r0), Paragraph []]) doc)
            = sections_of doc @ [''Prod Environment'', ''Dev Environment'',
                                 ''Test Environment'', ''Main Environment'']"
      by (simp add: sections_of_def capitalize_names del: capitalize.simps)
  qed
  define w5 where
    "w5 = print (Print ''\<newline>Generating Word document...'')
            (print (Print (replicate 80 CHR ''=''))
               (print (Print ''Console report generation completed!'')
                  (print (Print (replicate 80 CHR ''='')) w4)))"
  have w5: "length (sent w5) = 8" "saved w5 = []" "tables_printed w5 = 8"
    "failure_notices w5 = 0"
    using w4
    by (simp_all add: w5_def tables_printed_def failure_notices_def print_def no_notice)
  obtain doc w6 where
    cw: "create_word_document now stamp all_data num_days w5
           = (Inr (''Azure_Cost_Report_'' @ stamp @ ''.docx''), w6)"
    and w6: "saved w6 = [(''Azure_Cost_Report_'' @ stamp @ ''.docx'', doc)]"
      "sections_of doc = [''Prod Environment'', ''Dev Environment'',
                          ''Test Environment'', ''Main Environment'']"
      "length (sent w6) = 8" "tables_printed w6 = 8" "failure_notices w6 = 0"
    using create_word_document_saved [where sections = doc1 and all_data = all_data, OF d s,
            of now stamp num_days w5] w5
    by auto
  define w7 where "w7 = print (Print ''\<newline>All tasks completed successfully!'') w6"
  have w7: "saved w7 = [(''Azure_Cost_Report_'' @ stamp @ ''.docx'', doc)]"
    "length (sent w7) = 8" "tables_printed w7 = 8" "failure_notices w7 = 0"
    using w6
    by (simp_all add: w7_def tables_printed_def failure_notices_def print_def)
  have run: "main_program server now stamp subscriptions num_days empty_world
               = Some (Inr (''Azure_Cost_Report_'' @ stamp @ ''.docx''), w7)"
    apply (simp only: main_program_def Let_def)
    apply (simp only: w0_def [symmetric] loop)
    apply (simp only: option.case prod.case sum.case w5_def [symmetric] cw w7_def [symmetric])
    done
  show ?thesis
    using run w7 w6(2) by blast
qed


section \<open>Where the code departs from the specification\<close>

text \<open>
  Claim C5 says that the cost, the usage date and the resource type are read from the
  positions that the column schema of the response gives by name.
  \<open>parse_range_response\<close> computes the three positions, but uses only that of the
  date; \<open>process_cost_data\<close> reads the cost at position 0 and the resource type at
  position 2.  For \<open>reordered_response\<close> the schema puts the cost at position 1: the
  row is found under its date, and the date 20240101 is reported as its cost.
\<close>

theorem cost_is_read_at_position_0:
  "column_indices (columns_of reordered_response) = Inr (1, 0, 2)
   \<and> rows_on reordered_response 738886
     = [[JNum (PyInt 20240101), JNum (PyFloat 5), JStr ''Microsoft.Storage/storageAccounts'']]
   \<and> build_report jan_2 ''prod'' 1 reordered_response
     = Inr (Report
         \<lparr>cost_table = [[''01/01'', ''$0.00'', ''$0.00'', ''$20240101.00'', ''$0.00'']],
          percent_table = [],
          headers = [''Date'', ''Databricks'', ''Virtual Machine'', ''Storage'', ''Others''],
          date_strings = [''01/01'']\<rparr>)"
  by code_simp


text \<open>
  Claim C1 says that a subscription whose range fetch fails (not by rate limiting) is
  skipped on the console and in the document, and that the run completes for the
  other three.  On a failed fetch \<open>generate_data_for_subscription\<close> returns the tuple
  \<open>(None, None)\<close> (line 254), which is true in \<open>if data:\<close>, so the tuple is stored
  for the subscription, and \<open>create_word_document\<close> raises \<open>TypeError\<close> at
  \<open>data['cost_table']\<close>.  When the two requests for prod (numbers 2 and 3 of the
  run) are answered with an error status and the six others succeed, the console part
  completes (six tables, one notice of a failed fetch), the run then ends with
  \<open>TypeError\<close>, and no document is saved.  When all eight requests succeed the
  document is saved (\<open>all_fetched_run_saves_the_document\<close>).
\<close>

theorem failed_fetch_ends_the_run_with_TypeError:
  assumes "succeeds (server 0)" and "succeeds (server 1)"
    and "http_error (server 2)" and "http_error (server 3)"
    and "succeeds (server 4)" and "succeeds (server 5)"
    and "succeeds (server 6)" and "succeeds (server 7)"
  shows "\<exists>w. main_program server now stamp subscriptions num_days empty_world
               = Some (Inl TypeError, w)
           \<and> saved w = [] \<and> length (sent w) = 8
           \<and> tables_printed w = 6 \<and> failure_notices w = 1"
proof -
  define w0 where
    "w0 = print (Print (replicate 80 CHR ''=''))
            (print (Print (''AZURE COST REPORT - LAST '' @ show_int num_days
                             @ '' DAYS (ending yesterday)''))
               (print (Print (''\<newline>'' @ replicate 80 CHR ''='')) empty_world))"
  have w0: "length (sent w0) = 0" "saved w0 = []" "tables_printed w0 = 0"
    "failure_notices w0 = 0"
    by (simp_all add: w0_def empty_world_def tables_printed_def failure_notices_def print_def
                      no_notice)
  have a1: "succeeds (server (length (sent w0)))" "succeeds (server (Suc (length (sent w0))))"
    using assms(1,2) w0(1) by simp_all
  obtain r0 w1 where
    p1: "process_subscriptions server now subscriptions num_days
           [(0, ''main''), (1, ''prod''), (2, ''dev''), (3, ''test'')] Map.empty w0
         = process_subscriptions server now subscriptions num_days
             [(1, ''prod''), (2, ''dev''), (3, ''test'')] [''main'' \<mapsto> Report r0] w1"
    and w1: "length (sent w1) = 2" "saved w1 = []" "tables_printed w1 = 2"
      "failure_notices w1 = 0"
    using process_subscriptions_fetched
            [where server = server and w = w0 and now = now and subscriptions = subscriptions
               and num_days = num_days and idx = 0 and sub_name = "''main''"
               and rest = "[(1, ''prod''), (2, ''dev''), (3, ''test'')]"
               and all_data = Map.empty]
          a1 w0
    by auto
  have a2: "http_error (server (length (sent w1)))"
    "http_error (server (Suc (length (sent w1))))"
    using assms(3,4) w1(1) by (simp_all add: numeral_3_eq_3)
  obtain w2 where
    p2: "process_subscriptions server now subscriptions num_days
           [(1, ''prod''), (2, ''dev''), (3, ''test'')] [''main'' \<mapsto> Report r0] w1
         = process_subscriptions server now subscriptions num_days
             [(2, ''dev''), (3, ''test'')]
             [''main'' \<mapsto> Report r0, ''prod'' \<mapsto> NoneNone] w2"
    and w2: "length (sent w2) = 4" "saved w2 = []" "tables_printed w2 = 2"
      "failure_notices w2 = 1"
    using process_subscriptions_failed
            [where server = server and w = w1 and now = now and subscriptions = subscriptions
               and num_days = num_days and idx = 1 and sub_name = "''prod''"
               and rest = "[(2, ''dev''), (3, ''test'')]"
               and all_data = "[''main'' \<mapsto> Report r0]"]
          a2 w1
    by auto
  have a3: "succeeds (server (length (sent w2)))" "succeeds (server (Suc (length (sent w2))))"
    using assms(5,6) w2(1) by (simp_all add: eval_nat_numeral)
  obtain r2 w3 where
    p3: "process_subscriptions server now subscriptions num_days
           [(2, ''dev''), (3, ''test'')]
           [''main'' \<mapsto> Report r0, ''prod'' \<mapsto> NoneNone] w2
         = process_subscriptions server now subscriptions num_days [(3, ''test'')]
             [''main'' \<mapsto> Report r0, ''prod'' \<mapsto> NoneNone, ''dev'' \<mapsto> Report r2] w3"
    and w3: "length (sent w3) = 6" "saved w3 = []" "tables_printed w3 = 4"
      "failure_notices w3 = 1"
    using process_subscriptions_fetched
            [where server = server and w = w2 and now = now and subscriptions = subscriptions
               and num_days = num_days and idx = 2 and sub_name = "''dev''"
               and rest = "[(3, ''test'')]"
               and all_data = "[''main'' \<mapsto> Report r0, ''prod'' \<mapsto> NoneNone]"]
          a3 w2
    by auto
  have a4: "succeeds (server (length (sent w3)))" "succeeds (server (Suc (length (sent w3))))"
    using assms(7,8) w3(1) by (simp_all add: eval_nat_numeral)
  obtain r3 w4 where
    p4: "process_subscriptions server now subscriptions num_days [(3, ''test'')]
           [''main'' \<mapsto> Report r0, ''prod'' \<mapsto> NoneNone, ''dev'' \<mapsto> Report r2] w3
         = process_subscriptions server now subscriptions num_days []
             [''main'' \<mapsto> Report r0, ''prod'' \<mapsto> NoneNone, ''dev'' \<mapsto> Report r2,
              ''test'' \<mapsto> Report r3] w4"
    and w4: "length (sent w4) = 8" "saved w4 = []" "tables_printed w4 = 6"
      "failure_notices w4 = 1"
    using process_subscriptions_fetched
            [where server = server and w = w3 and now = now and subscriptions = subscriptions
               and num_days = num_days and idx = 3 and sub_name = "''test''"
               and rest = "[]"
               and all_data = "[''main'' \<mapsto> Report r0, ''prod'' \<mapsto> NoneNone,
                                ''dev'' \<mapsto> Report r2]"]
          a4 w3
    by auto
  define all_data where
    "all_data = [''main'' \<mapsto> Report r0, ''prod'' \<mapsto> NoneNone, ''dev'' \<mapsto> Report r2,
                 ''test'' \<mapsto> Report r3]"
  have loop: "process_subscriptions server now subscriptions num_days
                [(0, ''main''), (1, ''prod''), (2, ''dev''), (3, ''test'')] Map.empty w0
              = Some (Inr all_data, w4)"
    unfolding p1 p2 p3 p4 all_data_def by simp
  have prod: "all_data ''prod'' = Some NoneNone"
    by (simp add: all_data_def)
  have doc: "add_sections all_data [''prod'', ''dev'', ''test'', ''main''] doc = Inl TypeError"
    for doc
    using prod by (rule add_sections_tuple)
  define w5 where
    "w5 = print (Print ''\<newline>Generating Word document...'')
            (print (Print (replicate 80 CHR ''=''))
               (print (Print ''Console report generation completed!'')
                  (print (Print (replicate 80 CHR ''='')) w4)))"
  have w5: "length (sent w5) = 8" "saved w5 = []" "tables_printed w5 = 6"
    "failure_notices w5 = 1"
    using w4
    by (simp_all add: w5_def tables_printed_def failure_notices_def print_def no_notice)
  have cw: "create_word_document now stamp all_data num_days w5 = (Inl TypeError, w5)"
    by (simp only: create_word_document_def Let_def doc sum.case)
  have run: "main_program server now stamp subscriptions num_days empty_world
               = Some (Inl TypeError, w5)"
    apply (simp only: main_program_def Let_def)
    apply (simp only: w0_def [symmetric] loop)
    apply (simp only: option.case prod.case sum.case w5_def [symmetric] cw)
    done
  show ?thesis
    using run w5 by blast
qed

theorem failed_fetch_ends_the_run_with_TypeError_witness:
  "succeeds (prod_fails_server 0) \<and> succeeds (prod_fails_server 1)
   \<and> http_error (prod_fails_server 2) \<and> http_error (prod_fails_server 3)
   \<and> succeeds (prod_fails_server 4) \<and> succeeds (prod_fails_server 5)
   \<and> succeeds (prod_fails_server 6) \<and> succeeds (prod_fails_server 7)
   \<and> (\<exists>w. main_program prod_fails_server jan_4 ''20240104_120000'' subscription_ids 3
               empty_world
             = Some (Inl TypeError, w)
          \<and> saved w = [] \<and> length (sent w) = 8
          \<and> tables_printed w = 6 \<and> failure_notices w = 1)"
proof -
  have ok: "succeeds (ok_response sample_response)"
    by code_simp
  have err: "http_error error_response"
    by code_simp
  have s: "succeeds (prod_fails_server 0)" "succeeds (prod_fails_server 1)"
    "succeeds (prod_fails_server 4)" "succeeds (prod_fails_server 5)"
    "succeeds (prod_fails_server 6)" "succeeds (prod_fails_server 7)"
    using ok by (simp_all add: prod_fails_server_def)
  have e: "http_error (prod_fails_server 2)" "http_error (prod_fails_server 3)"
    using err by (simp_all add: prod_fails_server_def)
  show ?thesis
    using s e
      failed_fetch_ends_the_run_with_TypeError
        [OF s(1) s(2) e(1) e(2) s(3) s(4) s(5) s(6),
         of jan_4 "''20240104_120000''" subscription_ids 3]
    by simp
qed

end
